theory Spec2Isabelle
  imports
    Complex_Main
    "HOL-Library.Char_ord"
    "HOL-Library.List_Lexorder"
    "HOL-Library.Product_Lexorder"
    "HOL-Library.Multiset"
begin

section \<open>Meter-data ETL: hourly expansion, features and aggregation\<close>

text \<open>
  A shallow embedding of \<^verbatim>\<open>src/data_io/reader.py\<close> and
  \<^verbatim>\<open>src/features/feature_generator.py\<close>.

  Conventions of the embedding.
  \<^item> A pandas table is a record of its column names and its rows, in row order; a row
    is a record of the cells the code reads.
  \<^item> An exception is the \<open>Inl\<close> branch of a sum; the logger's output is returned as a
    list of log records beside the result.
  \<^item> Python floats are modelled by real numbers, with the IEEE results of a division by
    zero (\<open>inf\<close>, \<open>-inf\<close>, \<open>NaN\<close>) as extra values where the code tests for them;
    rounding error is not modelled.
  \<^item> The time zone (\<^verbatim>\<open>pytz\<close>) and the string parser behind
    \<^verbatim>\<open>pd.to_datetime\<close> are library code; they are parameters of the
    functions that use them.
\<close>

subsection \<open>Calendar arithmetic of Python's \<^verbatim>\<open>datetime\<close>\<close>

record date =
  year :: int
  month :: int
  day :: int

definition is_leap :: "int \<Rightarrow> bool" where
  "is_leap y = (y mod 4 = 0 \<and> (y mod 100 \<noteq> 0 \<or> y mod 400 = 0))"

definition DAYS_IN_MONTH :: "int list" where
  "DAYS_IN_MONTH = [-1, 31, 28, 31, 30, 31, 30, 31, 31, 30, 31, 30, 31]"

definition DAYS_BEFORE_MONTH :: "int list" where
  "DAYS_BEFORE_MONTH = [-1, 0, 31, 59, 90, 120, 151, 181, 212, 243, 273, 304, 334]"

definition days_before_year :: "int \<Rightarrow> int" where
  "days_before_year y = (y - 1) * 365 + (y - 1) div 4 - (y - 1) div 100 + (y - 1) div 400"

definition days_before_month :: "int \<Rightarrow> int \<Rightarrow> int" where
  "days_before_month y m =
     DAYS_BEFORE_MONTH ! nat m + (if m > 2 \<and> is_leap y then 1 else 0)"

definition ymd2ord :: "date \<Rightarrow> int" where
  "ymd2ord d = days_before_year (year d) + days_before_month (year d) (month d) + day d"

definition ord2ymd :: "int \<Rightarrow> date" where
  "ord2ymd n0 =
     (let n = n0 - 1;
          n400 = n div 146097; n = n mod 146097;
          n100 = n div 36524; n = n mod 36524;
          n4 = n div 1461; n = n mod 1461;
          n1 = n div 365; n = n mod 365;
          y = n400 * 400 + 1 + n100 * 100 + n4 * 4 + n1
      in if n1 = 4 \<or> n100 = 4 then \<lparr>year = y - 1, month = 12, day = 31\<rparr>
         else
           let leapyear = (n1 = 3 \<and> (n4 \<noteq> 24 \<or> n100 = 3));
               m = (n + 50) div 32;
               preceding = DAYS_BEFORE_MONTH ! nat m + (if m > 2 \<and> leapyear then 1 else 0)
           in if preceding > n
              then let m' = m - 1;
                       preceding' = preceding
                         - (DAYS_IN_MONTH ! nat m' + (if m' = 2 \<and> leapyear then 1 else 0))
                   in \<lparr>year = y, month = m', day = n - preceding' + 1\<rparr>
              else \<lparr>year = y, month = m, day = n - preceding + 1\<rparr>)"

text \<open>
  A naive \<^verbatim>\<open>datetime\<close> is the number of seconds of its wall clock since
  0001-01-01T00:00:00 shifted by one day (ordinal 1 is 0001-01-01); an aware one carries
  the UTC offset of its \<^verbatim>\<open>tzinfo\<close> in seconds.
\<close>

type_synonym naive = int

record aware =
  wall :: naive
  utcoff :: int

definition combine_midnight :: "date \<Rightarrow> naive" where
  "combine_midnight d = ymd2ord d * 86400"

definition digit :: "int \<Rightarrow> char" where
  "digit n = ''0123456789'' ! nat (n mod 10)"

definition pad2 :: "int \<Rightarrow> string" where
  "pad2 n = [digit (n div 10), digit n]"

definition pad4 :: "int \<Rightarrow> string" where
  "pad4 n = [digit (n div 1000), digit (n div 100), digit (n div 10), digit n]"

definition date_isoformat :: "date \<Rightarrow> string" where
  "date_isoformat d = pad4 (year d) @ ''-'' @ pad2 (month d) @ ''-'' @ pad2 (day d)"

definition format_offset :: "int \<Rightarrow> string" where
  "format_offset off =
     (let sign = (if off < 0 then ''-'' else ''+'');
          a = \<bar>off\<bar>;
          hh = a div 3600; mm = (a mod 3600) div 60; ss = a mod 60
      in sign @ pad2 hh @ '':'' @ pad2 mm @ (if ss \<noteq> 0 then '':'' @ pad2 ss else []))"

definition isoformat :: "aware \<Rightarrow> string" where
  "isoformat t =
     (let s = wall t mod 86400
      in date_isoformat (ord2ymd (wall t div 86400)) @ ''T''
         @ pad2 (s div 3600) @ '':'' @ pad2 ((s mod 3600) div 60) @ '':'' @ pad2 (s mod 60)
         @ format_offset (utcoff t))"

text \<open>
  The \<^verbatim>\<open>pytz\<close> zone, as far as the code uses it: \<open>localize_off\<close> is the offset
  that \<^verbatim>\<open>tz.localize(dt)\<close> attaches to a naive wall-clock time, \<open>utcoffset_at\<close> is
  the offset the zone's rules prescribe at a UTC instant (given as the UTC wall clock),
  \<open>tz_localize\<close> is pandas' strict localisation, which fails on a wall-clock time that
  the zone skips or repeats.
\<close>

record tzinfo =
  localize_off :: "naive \<Rightarrow> int"
  utcoffset_at :: "naive \<Rightarrow> int"
  tz_localize :: "naive \<Rightarrow> int option"

definition localize :: "tzinfo \<Rightarrow> naive \<Rightarrow> aware" where
  "localize tz dt = \<lparr>wall = dt, utcoff = localize_off tz dt\<rparr>"

text \<open>
  \<^verbatim>\<open>dt + timedelta(hours=h)\<close> on an aware datetime moves the wall clock and
  keeps the \<^verbatim>\<open>tzinfo\<close> object, hence the offset.
\<close>

definition add_hours :: "aware \<Rightarrow> nat \<Rightarrow> aware" where
  "add_hours t h = t\<lparr>wall := wall t + 3600 * int h\<rparr>"

definition astimezone_utc :: "aware \<Rightarrow> aware" where
  "astimezone_utc t = \<lparr>wall = wall t - utcoff t, utcoff = 0\<rparr>"

definition instant :: "aware \<Rightarrow> int" where
  "instant t = wall t - utcoff t"

subsection \<open>The reader's tables\<close>

datatype error = ValueError | KeyError | TypeError | TimeError

text \<open>
  The \<^verbatim>\<open>date\<close> cell of an input row, by the cases the code tells apart: a
  \<^verbatim>\<open>pd.Timestamp\<close> (its date and second of the day), a string, a
  \<^verbatim>\<open>datetime.date\<close>, or anything else (\<^verbatim>\<open>None\<close>, \<^verbatim>\<open>NaT\<close>, a number),
  on which \<^verbatim>\<open>datetime.combine\<close> raises.
\<close>

datatype raw_date = TimestampV date nat | StrV string | DateV date | OtherV

datatype log_record =
    Warn_invalid_array nat string raw_date
  | Warn_empty_hourly
  | Info_expanded nat
  | Warn_unparsed nat

text \<open>
  The \<^verbatim>\<open>energy_consumption\<close> cell: a list, tuple or array of floats, or a value
  of another type.
\<close>

datatype arr_cell = ArrayLike "real list" | NotArray

record meter_day =
  m_client_id :: string
  m_ext_dev_ref :: string
  m_date :: raw_date
  m_energy_consumption :: arr_cell
  m_resolution :: "string option"

record 'r frame =
  columns :: "string list"
  rows :: "'r list"

record hourly_record =
  client_id :: string
  ext_dev_ref :: string
  resolution :: "string option"
  date_local :: string
  hour :: nat
  timestamp_local :: string
  timestamp_utc :: string
  consumption_kwh :: real

definition hourly_columns :: "string list" where
  "hourly_columns = [''client_id'', ''ext_dev_ref'', ''resolution'', ''date_local'', ''hour'',
     ''timestamp_local'', ''timestamp_utc'', ''consumption_kwh'']"

subsection \<open>\<^verbatim>\<open>expand_daily_array_to_hourly\<close>\<close>

definition required :: "string list" where
  "required = [''client_id'', ''ext_dev_ref'', ''date'', ''energy_consumption'']"

definition valid_array :: "arr_cell \<Rightarrow> bool" where
  "valid_array a = (case a of ArrayLike arr \<Rightarrow> length arr = 24 | NotArray \<Rightarrow> False)"

text \<open>
  Lines 43--49 and the \<^verbatim>\<open>datetime.combine\<close> of line 51: the calendar date of the
  row. \<open>to_datetime\<close> stands for \<^verbatim>\<open>pd.to_datetime(s).date()\<close> on a string, which
  raises on a string it cannot parse.
\<close>

definition resolve_date :: "(string \<Rightarrow> error + date) \<Rightarrow> raw_date \<Rightarrow> error + date" where
  "resolve_date to_datetime raw =
     (case raw of
        TimestampV d s \<Rightarrow> Inr d
      | StrV s \<Rightarrow> to_datetime s
      | DateV d \<Rightarrow> Inr d
      | OtherV \<Rightarrow> Inl TypeError)"

definition row_get_resolution :: "string list \<Rightarrow> meter_day \<Rightarrow> string option" where
  "row_get_resolution cols row =
     (if ''resolution'' \<in> set cols then m_resolution row else None)"

text \<open>The inner loop, lines 51--64: the records one valid row appends to \<open>rows\<close>.\<close>

definition emit_hours ::
  "tzinfo \<Rightarrow> string list \<Rightarrow> meter_day \<Rightarrow> date \<Rightarrow> real list \<Rightarrow> hourly_record list" where
  "emit_hours tz cols row day_date arr =
     (let local_midnight = localize tz (combine_midnight day_date)
      in map (\<lambda>(h, v).
           let ts_local = add_hours local_midnight h;
               ts_utc = astimezone_utc ts_local
           in \<lparr>client_id = m_client_id row,
               ext_dev_ref = m_ext_dev_ref row,
               resolution = row_get_resolution cols row,
               date_local = date_isoformat day_date,
               hour = h,
               timestamp_local = isoformat ts_local,
               timestamp_utc = isoformat ts_utc,
               consumption_kwh = v\<rparr>)
         (enumerate 0 arr))"

text \<open>
  One iteration of the outer loop, lines 37--64, on the row at index \<open>idx\<close>: the records
  appended and the warnings logged, or the exception raised.
\<close>

definition expand_row ::
  "(string \<Rightarrow> error + date) \<Rightarrow> tzinfo \<Rightarrow> string list \<Rightarrow> nat \<Rightarrow> meter_day
     \<Rightarrow> error + (hourly_record list \<times> log_record list)" where
  "expand_row to_datetime tz cols idx row =
     (case m_energy_consumption row of
        NotArray \<Rightarrow> Inr ([], [Warn_invalid_array idx (m_ext_dev_ref row) (m_date row)])
      | ArrayLike arr \<Rightarrow>
          if length arr \<noteq> 24 then Inr ([], [Warn_invalid_array idx (m_ext_dev_ref row) (m_date row)])
          else (case resolve_date to_datetime (m_date row) of
                  Inl e \<Rightarrow> Inl e
                | Inr day_date \<Rightarrow> Inr (emit_hours tz cols row day_date arr, [])))"

text \<open>The outer loop: rows in order, stopping at the first exception.\<close>

fun expand_loop ::
  "(string \<Rightarrow> error + date) \<Rightarrow> tzinfo \<Rightarrow> string list \<Rightarrow> (nat \<times> meter_day) list
     \<Rightarrow> hourly_record list \<times> log_record list
     \<Rightarrow> error + (hourly_record list \<times> log_record list)" where
  "expand_loop to_datetime tz cols [] acc = Inr acc"
| "expand_loop to_datetime tz cols ((idx, row) # rest) (out, lg) =
     (case expand_row to_datetime tz cols idx row of
        Inl e \<Rightarrow> Inl e
      | Inr (recs, warns) \<Rightarrow> expand_loop to_datetime tz cols rest (out @ recs, lg @ warns))"

definition hourly_sort_key :: "hourly_record \<Rightarrow> string \<times> string" where
  "hourly_sort_key r = (ext_dev_ref r, timestamp_local r)"

definition expand_daily_array_to_hourly ::
  "(string \<Rightarrow> error + date) \<Rightarrow> tzinfo \<Rightarrow> meter_day frame
     \<Rightarrow> error + (hourly_record frame \<times> log_record list)" where
  "expand_daily_array_to_hourly to_datetime tz df =
     (if \<not> set required \<subseteq> set (columns df) then Inl ValueError
      else case expand_loop to_datetime tz (columns df) (enumerate 0 (rows df)) ([], []) of
             Inl e \<Rightarrow> Inl e
           | Inr (out, lg) \<Rightarrow>
               if out = [] then Inr (\<lparr>columns = [], rows = []\<rparr>, lg @ [Warn_empty_hourly])
               else Inr (\<lparr>columns = hourly_columns, rows = sort_key hourly_sort_key out\<rparr>,
                         lg @ [Info_expanded (length out)]))"

subsection \<open>The configured zone\<close>

text \<open>
  \<^verbatim>\<open>settings.LOCAL_TZNAME\<close> is Europe/Vilnius. Its rules in 2024 (tz database):
  UTC+02:00, and UTC+03:00 from 2024-03-31T01:00:00Z until 2024-10-27T01:00:00Z. The
  local clock jumps from 03:00 to 04:00 on 31 March and repeats 03:00--04:00 on
  27 October; \<^verbatim>\<open>localize\<close> with its default \<^verbatim>\<open>is_dst=False\<close> resolves both
  to the standard offset.
\<close>

definition at_hour :: "int \<Rightarrow> int \<Rightarrow> int \<Rightarrow> int \<Rightarrow> naive" where
  "at_hour y m d h = ymd2ord \<lparr>year = y, month = m, day = d\<rparr> * 86400 + 3600 * h"

definition vilnius_2024 :: tzinfo where
  "vilnius_2024 =
     \<lparr>localize_off = (\<lambda>w. if at_hour 2024 3 31 4 \<le> w \<and> w < at_hour 2024 10 27 3
                           then 10800 else 7200),
      utcoffset_at = (\<lambda>u. if at_hour 2024 3 31 1 \<le> u \<and> u < at_hour 2024 10 27 1
                           then 10800 else 7200),
      tz_localize = (\<lambda>w. if at_hour 2024 3 31 3 \<le> w \<and> w < at_hour 2024 3 31 4 then None
                          else if at_hour 2024 10 27 3 \<le> w \<and> w < at_hour 2024 10 27 4 then None
                          else if at_hour 2024 3 31 4 \<le> w \<and> w < at_hour 2024 10 27 3
                          then Some 10800 else Some 7200)\<rparr>"

subsection \<open>The hourly table with features\<close>

text \<open>
  The columns \<^verbatim>\<open>add_time_features_hourly\<close> adds to an hourly row (\<open>timestamp\<close>
  is the naive UTC clock that \<^verbatim>\<open>parsed.values\<close> yields); \<open>fcols\<close> holds the
  float columns whose names are computed (\<^verbatim>\<open>lag_{L}h\<close>, \<^verbatim>\<open>rolling_mean_{W}h\<close>,
  \<^verbatim>\<open>rolling_std_{W}h\<close>), a null cell being \<open>None\<close>.
\<close>

record hourly_feat = hourly_record +
  timestamp :: naive
  day_of_week :: nat
  is_weekend :: nat
  f_month :: int
  f_year :: int
  fcols :: "(string \<times> real option) list"

text \<open>The float a division can return: a finite number, \<open>inf\<close>, \<open>-inf\<close> or \<open>NaN\<close>.\<close>

datatype fl = Fin real | PInf | NInf | NaN

definition fdiv :: "real \<Rightarrow> real \<Rightarrow> fl" where
  "fdiv a b =
     (if b \<noteq> 0 then Fin (a / b) else if a > 0 then PInf else if a < 0 then NInf else NaN)"

text \<open>\<^verbatim>\<open>.replace(np.inf, 0)\<close> and \<^verbatim>\<open>.fillna(0)\<close> on a float column.\<close>

definition replace_inf_0 :: "fl \<Rightarrow> fl" where
  "replace_inf_0 x = (if x = PInf then Fin 0 else x)"

definition fillna_0 :: "fl \<Rightarrow> fl" where
  "fillna_0 x = (if x = NaN then Fin 0 else x)"

text \<open>
  \<^verbatim>\<open>groupby(keys)\<close> with its default \<^verbatim>\<open>sort=True\<close>: the distinct keys in
  ascending order, and for a key the rows that carry it, in table order.
\<close>

definition groupby_keys :: "('r \<Rightarrow> 'k::linorder) \<Rightarrow> 'r list \<Rightarrow> 'k list" where
  "groupby_keys key rs = sort (remdups (map key rs))"

definition group_of :: "('r \<Rightarrow> 'k) \<Rightarrow> 'r list \<Rightarrow> 'k \<Rightarrow> 'r list" where
  "group_of key rs k = filter (\<lambda>r. key r = k) rs"

definition mean :: "real list \<Rightarrow> real" where
  "mean xs = sum_list xs / real (length xs)"

text \<open>The sample standard deviation (\<^verbatim>\<open>ddof=1\<close>): null below two observations.\<close>

definition std :: "real list \<Rightarrow> real option" where
  "std xs =
     (if length xs < 2 then None
      else Some (sqrt (sum_list (map (\<lambda>x. (x - mean xs)\<^sup>2) xs) / real (length xs - 1))))"

text \<open>The square root is left uninterpreted when a concrete table is evaluated.\<close>

declare sqrt_def [code del]

text \<open>\<^verbatim>\<open>idxmax\<close>: the first row of a group that attains the maximum.\<close>

definition idxmax :: "('r \<Rightarrow> real) \<Rightarrow> 'r list \<Rightarrow> 'r option" where
  "idxmax f g = find (\<lambda>r. f r = Max (set (map f g))) g"

subsection \<open>Text of numbers and timestamps\<close>

definition digit_val :: "char \<Rightarrow> int" where
  "digit_val c = of_char c - 48"

definition is_digit :: "char \<Rightarrow> bool" where
  "is_digit c = (CHR ''0'' \<le> c \<and> c \<le> CHR ''9'')"

definition number :: "string \<Rightarrow> int" where
  "number s = foldl (\<lambda>n c. 10 * n + digit_val c) 0 s"

text \<open>The decimal text of an integer, as an f-string writes it.\<close>

fun str_nat :: "nat \<Rightarrow> string" where
  "str_nat n = (if n < 10 then [digit (int n)] else str_nat (n div 10) @ [digit (int n)])"

definition str_int :: "int \<Rightarrow> string" where
  "str_int i = (if i < 0 then ''-'' @ str_nat (nat (- i)) else str_nat (nat i))"

text \<open>\<^verbatim>\<open>str\<close> of a naive and of an aware \<^verbatim>\<open>Timestamp\<close> (whole seconds).\<close>

definition naive_str :: "naive \<Rightarrow> string" where
  "naive_str w =
     (let s = w mod 86400
      in date_isoformat (ord2ymd (w div 86400)) @ '' ''
         @ pad2 (s div 3600) @ '':'' @ pad2 ((s mod 3600) div 60) @ '':'' @ pad2 (s mod 60))"

definition aware_str :: "aware \<Rightarrow> string" where
  "aware_str t = naive_str (wall t) @ format_offset (utcoff t)"

subsection \<open>Timestamp normalisation\<close>

text \<open>
  \<^verbatim>\<open>_TZ_DETECT_RE = ([+-]\d{2}:\d{2}|[+-]\d{4}|Z)$\<close>, searched in a string: the string,
  or the string without a final newline, ends with \<open>Z\<close>, with a sign and \<open>dd:dd\<close>, or
  with a sign and four digits.
\<close>

definition is_sign :: "char \<Rightarrow> bool" where
  "is_sign c = (c = CHR ''+'' \<or> c = CHR ''-'')"

definition ends_with_offset :: "string \<Rightarrow> bool" where
  "ends_with_offset s =
     (let n = length s; t6 = drop (n - 6) s; t5 = drop (n - 5) s
      in (n \<ge> 1 \<and> last s = CHR ''Z'')
       \<or> (n \<ge> 6 \<and> is_sign (t6 ! 0) \<and> is_digit (t6 ! 1) \<and> is_digit (t6 ! 2)
             \<and> t6 ! 3 = CHR '':'' \<and> is_digit (t6 ! 4) \<and> is_digit (t6 ! 5))
       \<or> (n \<ge> 5 \<and> is_sign (t5 ! 0) \<and> is_digit (t5 ! 1) \<and> is_digit (t5 ! 2)
             \<and> is_digit (t5 ! 3) \<and> is_digit (t5 ! 4)))"

definition TZ_DETECT_RE :: "string \<Rightarrow> bool" where
  "TZ_DETECT_RE s =
     (ends_with_offset s \<or> (s \<noteq> [] \<and> last s = CHR 0x0A \<and> ends_with_offset (butlast s)))"

text \<open>
  A cell of a timestamp column of object dtype: null, a tz-aware timestamp, a naive one,
  or a string. A column is either of tz-aware datetime dtype (its values, null or aware) or
  of another dtype (its cells).
\<close>

datatype ts_cell = NullCell | AwareTs aware | NaiveTs naive | StrCell string

datatype series = TzAwareSeries "aware option list" | ObjectSeries "ts_cell list"

text \<open>
  What \<^verbatim>\<open>pd.to_datetime\<close> reads in a string: a naive clock, or a clock with an
  offset; \<open>None\<close> stands for a string it cannot parse (\<^verbatim>\<open>NaT\<close> under
  \<^verbatim>\<open>errors="coerce"\<close>). The parser is a parameter.
\<close>

datatype parsed = PNaive naive | PAware aware

definition cell_str :: "ts_cell \<Rightarrow> string" where
  "cell_str c =
     (case c of NullCell \<Rightarrow> ''NaT'' | AwareTs t \<Rightarrow> aware_str t | NaiveTs w \<Rightarrow> naive_str w
      | StrCell s \<Rightarrow> s)"

text \<open>Lines 20--25.\<close>

definition series_has_tz_offset :: "ts_cell list \<Rightarrow> bool" where
  "series_has_tz_offset s =
     (let non_null = map cell_str (filter (\<lambda>c. c \<noteq> NullCell) s)
      in if non_null = [] then False else list_ex TZ_DETECT_RE non_null)"

text \<open>\<^verbatim>\<open>tz_convert\<close>: the zone's clock and offset at a UTC instant.\<close>

definition tz_convert :: "tzinfo \<Rightarrow> int \<Rightarrow> aware" where
  "tz_convert tz u = \<lparr>wall = u + utcoffset_at tz u, utcoff = utcoffset_at tz u\<rparr>"

text \<open>
  \<^verbatim>\<open>pd.to_datetime(x, utc=True, errors="coerce")\<close> on one cell: the UTC instant,
  a value without offset being read as UTC.
\<close>

definition to_datetime_utc :: "(string \<Rightarrow> parsed option) \<Rightarrow> ts_cell \<Rightarrow> int option" where
  "to_datetime_utc parse c =
     (case c of
        NullCell \<Rightarrow> None
      | AwareTs t \<Rightarrow> Some (instant t)
      | NaiveTs w \<Rightarrow> Some w
      | StrCell s \<Rightarrow>
          (case parse s of None \<Rightarrow> None | Some (PNaive w) \<Rightarrow> Some w
           | Some (PAware t) \<Rightarrow> Some (instant t)))"

text \<open>\<^verbatim>\<open>pd.to_datetime(x, errors="coerce")\<close> on one cell.\<close>

definition to_datetime_plain :: "(string \<Rightarrow> parsed option) \<Rightarrow> ts_cell \<Rightarrow> parsed option" where
  "to_datetime_plain parse c =
     (case c of
        NullCell \<Rightarrow> None
      | AwareTs t \<Rightarrow> Some (PAware t)
      | NaiveTs w \<Rightarrow> Some (PNaive w)
      | StrCell s \<Rightarrow> parse s)"

text \<open>
  \<^verbatim>\<open>tz_localize(local_tz)\<close>: the clock is kept and the zone's offset attached;
  a clock the zone skips or repeats raises, an aware value raises, \<^verbatim>\<open>NaT\<close> stays.
\<close>

definition localize_strict :: "tzinfo \<Rightarrow> parsed option \<Rightarrow> error + aware option" where
  "localize_strict tz p =
     (case p of
        None \<Rightarrow> Inr None
      | Some (PAware t) \<Rightarrow> Inl TypeError
      | Some (PNaive w) \<Rightarrow>
          (case tz_localize tz w of None \<Rightarrow> Inl TimeError
           | Some off \<Rightarrow> Inr (Some \<lparr>wall = w, utcoff = off\<rparr>)))"

text \<open>Lines 40--45, on one cell.\<close>

definition ensure_tz ::
  "(string \<Rightarrow> parsed option) \<Rightarrow> tzinfo \<Rightarrow> ts_cell \<Rightarrow> error + aware option" where
  "ensure_tz parse local_tz x =
     (case x of
        NullCell \<Rightarrow> Inr None
      | AwareTs t \<Rightarrow> Inr (Some (tz_convert local_tz (instant t)))
      | _ \<Rightarrow> if TZ_DETECT_RE (cell_str x)
              then Inr (map_option (tz_convert local_tz) (to_datetime_utc parse x))
              else localize_strict local_tz (to_datetime_plain parse x))"

text \<open>A function that may raise, applied along a column: the first exception wins.\<close>

fun map_raise :: "('a \<Rightarrow> error + 'b) \<Rightarrow> 'a list \<Rightarrow> error + 'b list" where
  "map_raise f [] = Inr []"
| "map_raise f (x # xs) =
     (case f x of
        Inl e \<Rightarrow> Inl e
      | Inr y \<Rightarrow> (case map_raise f xs of Inl e \<Rightarrow> Inl e | Inr ys \<Rightarrow> Inr (y # ys)))"

definition is_aware :: "parsed option \<Rightarrow> bool" where
  "is_aware p = (case p of Some (PAware t) \<Rightarrow> True | _ \<Rightarrow> False)"

text \<open>
  Lines 58--62. \<^verbatim>\<open>pd.to_datetime\<close> gives a tz-aware column when the values it read
  all carry one offset, a naive one when none carries an offset; a column mixing the two,
  or mixing offsets, is not a datetime column and the \<^verbatim>\<open>.dt\<close> accessor raises.
\<close>

definition parse_without_offset ::
  "(string \<Rightarrow> parsed option) \<Rightarrow> tzinfo \<Rightarrow> ts_cell list \<Rightarrow> error + aware option list" where
  "parse_without_offset parse local_tz cells =
     (let ps = map (to_datetime_plain parse) cells;
          aw = concat (map (\<lambda>p. case p of Some (PAware t) \<Rightarrow> [t] | _ \<Rightarrow> []) ps)
      in if aw = [] then map_raise (localize_strict local_tz) ps
         else if list_all (\<lambda>p. p = None \<or> is_aware p) ps
                 \<and> list_all (\<lambda>t. utcoff t = utcoff (hd aw)) aw
         then Inr (map (\<lambda>p. case p of Some (PAware t) \<Rightarrow> Some (tz_convert local_tz (instant t))
                                | _ \<Rightarrow> None) ps)
         else Inl ValueError)"

text \<open>Lines 27--63.\<close>

definition parse_timestamp_local_to_tz ::
  "(string \<Rightarrow> parsed option) \<Rightarrow> tzinfo \<Rightarrow> series \<Rightarrow> error + aware option list" where
  "parse_timestamp_local_to_tz parse local_tz s =
     (case s of
        TzAwareSeries vs \<Rightarrow> Inr vs
      | ObjectSeries cells \<Rightarrow>
          if list_ex (\<lambda>x. case x of AwareTs t \<Rightarrow> True | _ \<Rightarrow> False) cells
          then map_raise (ensure_tz parse local_tz) cells
          else if series_has_tz_offset cells
          then Inr (map (\<lambda>c. map_option (tz_convert local_tz) (to_datetime_utc parse c)) cells)
          else parse_without_offset parse local_tz cells)"

subsection \<open>\<^verbatim>\<open>add_time_features_hourly\<close>\<close>

definition time_feature_columns :: "string list" where
  "time_feature_columns = [''timestamp'', ''hour'', ''day_of_week'', ''is_weekend'',
     ''date_local'', ''month'', ''year'']"

text \<open>Appending the columns a stage assigns: an existing column keeps its place.\<close>

definition with_columns :: "string list \<Rightarrow> string list \<Rightarrow> string list" where
  "with_columns cols new = cols @ filter (\<lambda>c. c \<notin> set cols) new"

text \<open>
  Lines 83--89 on one row: \<^verbatim>\<open>parsed.values\<close> is the UTC clock of the parsed
  timestamp, without zone, and the calendar features are read from it.
\<close>

definition with_time_features :: "hourly_record \<Rightarrow> aware \<Rightarrow> hourly_feat" where
  "with_time_features r t =
     (let ts = instant t;
          d = ord2ymd (ts div 86400);
          dow = nat ((ts div 86400 + 6) mod 7)
      in hourly_record.extend
           (r\<lparr>hour := nat ((ts mod 86400) div 3600), date_local := date_isoformat d\<rparr>)
           (hourly_feat.fields ts dow (if dow = 5 \<or> dow = 6 then 1 else 0) (month d) (year d) []))"

text \<open>Lines 77--81: the rows whose timestamp parsed, each with its timestamp.\<close>

definition parsed_rows :: "'r list \<Rightarrow> aware option list \<Rightarrow> ('r \<times> aware) list" where
  "parsed_rows rs ps =
     concat (map (\<lambda>(r, p). case p of None \<Rightarrow> [] | Some t \<Rightarrow> [(r, t)]) (zip rs ps))"

definition add_time_features_hourly ::
  "(string \<Rightarrow> parsed option) \<Rightarrow> tzinfo \<Rightarrow> hourly_record frame
     \<Rightarrow> error + (hourly_feat frame \<times> log_record list)" where
  "add_time_features_hourly parse tz df =
     (if ''timestamp_local'' \<notin> set (columns df) then Inl KeyError
      else case parse_timestamp_local_to_tz parse tz
                  (ObjectSeries (map (StrCell \<circ> timestamp_local) (rows df))) of
             Inl e \<Rightarrow> Inl e
           | Inr ps \<Rightarrow>
               let n_bad = length (filter (\<lambda>p. p = None) ps)
               in Inr (\<lparr>columns = with_columns (columns df) time_feature_columns,
                        rows = map (\<lambda>(r, t). with_time_features r t) (parsed_rows (rows df) ps)\<rparr>,
                       if n_bad \<noteq> 0 then [Warn_unparsed n_bad] else []))"

subsection \<open>\<^verbatim>\<open>add_lag_features\<close> and \<^verbatim>\<open>add_rolling_features_hourly\<close>\<close>

definition feat_sort_key :: "hourly_feat \<Rightarrow> string \<times> int" where
  "feat_sort_key r = (ext_dev_ref r, timestamp r)"

text \<open>Assigning a column whose name is computed, in one row.\<close>

definition set_fcol :: "string \<Rightarrow> 'a \<Rightarrow> (string \<times> 'a) list \<Rightarrow> (string \<times> 'a) list" where
  "set_fcol name v cols =
     (if name \<in> fst ` set cols
      then map (\<lambda>(n, x). if n = name then (n, v) else (n, x)) cols
      else cols @ [(name, v)])"

text \<open>
  The values of a row's device, in table order, and the row's position among them:
  \<^verbatim>\<open>groupby("ext_dev_ref")["consumption_kwh"]\<close> seen from the row at index \<open>i\<close>.
\<close>

definition device_values :: "hourly_feat list \<Rightarrow> nat \<Rightarrow> real list" where
  "device_values rs i =
     map consumption_kwh (filter (\<lambda>r. ext_dev_ref r = ext_dev_ref (rs ! i)) rs)"

definition device_pos :: "hourly_feat list \<Rightarrow> nat \<Rightarrow> nat" where
  "device_pos rs i = length (filter (\<lambda>r. ext_dev_ref r = ext_dev_ref (rs ! i)) (take i rs))"

text \<open>\<^verbatim>\<open>shift(lag)\<close> within a group: the value \<open>lag\<close> places earlier, null outside.\<close>

definition shift :: "int \<Rightarrow> real list \<Rightarrow> real option list" where
  "shift lag vs =
     map (\<lambda>p. let q = int p - lag
               in if 0 \<le> q \<and> q < int (length vs) then Some (vs ! nat q) else None)
       [0..<length vs]"

definition lag_column :: "int \<Rightarrow> string" where
  "lag_column lag = ''lag_'' @ str_int lag @ ''h''"

definition add_lag_column :: "int \<Rightarrow> hourly_feat list \<Rightarrow> hourly_feat list" where
  "add_lag_column lag rs =
     map (\<lambda>i. (rs ! i)\<lparr>fcols := set_fcol (lag_column lag)
                   (shift lag (device_values rs i) ! device_pos rs i) (fcols (rs ! i))\<rparr>)
       [0..<length rs]"

definition add_lag_features :: "hourly_feat frame \<Rightarrow> int list \<Rightarrow> error + hourly_feat frame" where
  "add_lag_features df lags =
     (if ''timestamp'' \<notin> set (columns df) then Inl KeyError
      else if \<not> set [''ext_dev_ref'', ''consumption_kwh''] \<subseteq> set (columns df) then Inl KeyError
      else Inr \<lparr>columns = with_columns (columns df) (map lag_column lags),
                rows = fold add_lag_column lags (sort_key feat_sort_key (rows df))\<rparr>)"

text \<open>
  \<^verbatim>\<open>rolling(W, min_periods=1)\<close> at position \<open>p\<close> of a column: the non-null values
  among the last \<open>W\<close> cells up to \<open>p\<close>; their mean when there is one, their sample standard
  deviation when there are two, null otherwise.
\<close>

definition rolling_obs :: "nat \<Rightarrow> real option list \<Rightarrow> nat \<Rightarrow> real list" where
  "rolling_obs W xs p =
     concat (map (\<lambda>x. case x of None \<Rightarrow> [] | Some v \<Rightarrow> [v]) (drop (Suc p - W) (take (Suc p) xs)))"

definition rolling_mean :: "nat \<Rightarrow> real option list \<Rightarrow> nat \<Rightarrow> real option" where
  "rolling_mean W xs p =
     (let obs = rolling_obs W xs p in if length obs \<ge> 1 then Some (mean obs) else None)"

definition rolling_std :: "nat \<Rightarrow> real option list \<Rightarrow> nat \<Rightarrow> real option" where
  "rolling_std W xs p =
     (let obs = rolling_obs W xs p in if length obs \<ge> 1 then std obs else None)"

definition fillna0 :: "real option \<Rightarrow> real option" where
  "fillna0 x = (case x of None \<Rightarrow> Some 0 | Some v \<Rightarrow> Some v)"

definition rolling_mean_column :: "int \<Rightarrow> string" where
  "rolling_mean_column W = ''rolling_mean_'' @ str_int W @ ''h''"

definition rolling_std_column :: "int \<Rightarrow> string" where
  "rolling_std_column W = ''rolling_std_'' @ str_int W @ ''h''"

text \<open>
  Lines 112--133. The window must hold at least \<^verbatim>\<open>min_periods = 1\<close> cell, or
  \<^verbatim>\<open>rolling\<close> raises.
\<close>

definition add_rolling_features_hourly ::
  "hourly_feat frame \<Rightarrow> int \<Rightarrow> error + hourly_feat frame" where
  "add_rolling_features_hourly df window_hours =
     (if ''timestamp'' \<notin> set (columns df) then Inl KeyError
      else if \<not> set [''ext_dev_ref'', ''consumption_kwh''] \<subseteq> set (columns df) then Inl KeyError
      else if window_hours < 1 then Inl ValueError
      else
        let rs = sort_key feat_sort_key (rows df);
            W = nat window_hours;
            rs1 = map (\<lambda>i. (rs ! i)\<lparr>fcols := set_fcol (rolling_mean_column window_hours)
                        (rolling_mean W (shift 1 (device_values rs i)) (device_pos rs i))
                        (fcols (rs ! i))\<rparr>) [0..<length rs];
            rs2 = map (\<lambda>i. (rs1 ! i)\<lparr>fcols := set_fcol (rolling_std_column window_hours)
                        (fillna0 (rolling_std W (shift 1 (device_values rs1 i)) (device_pos rs1 i)))
                        (fcols (rs1 ! i))\<rparr>) [0..<length rs1]
        in Inr \<lparr>columns = with_columns (columns df)
                            [rolling_mean_column window_hours, rolling_std_column window_hours],
                rows = rs2\<rparr>)"

subsection \<open>\<^verbatim>\<open>aggregate_daily_from_hourly\<close>\<close>

text \<open>
  A daily row: the aggregator's columns, then the cells the enrichment stages fill
  (\<open>None\<close> or empty until then), and a \<open>timestamp\<close> cell for a daily table that carries
  one (the aggregator's own output does not).
\<close>

record daily_record =
  d_client_id :: string
  d_ext_dev_ref :: string
  d_date_local :: string
  total_kwh :: real
  mean_kwh :: real
  max_kwh :: real
  std_kwh :: "real option"
  hourly_count :: nat
  peak_hour :: nat
  peak_kwh :: real
  peak_to_mean_ratio :: fl
  night_kwh :: real
  day_kwh :: real
  cumulative_total_kwh :: real
  weekend_vs_weekday :: fl
  d_timestamp :: naive
  d_year :: "int option"
  d_month :: "int option"
  season :: "string option"
  is_holiday :: "nat option"
  is_summer_vacation :: "nat option"
  rolling_total_kwh :: "(string \<times> real) list"
  consumption_category :: "string option"

definition daily_columns :: "string list" where
  "daily_columns = [''client_id'', ''ext_dev_ref'', ''date_local'', ''total_kwh'', ''mean_kwh'',
     ''max_kwh'', ''std_kwh'', ''hourly_count'', ''peak_hour'', ''peak_kwh'',
     ''peak_to_mean_ratio'', ''night_kwh'', ''day_kwh'', ''cumulative_total_kwh'',
     ''weekend_vs_weekday'']"

definition daily_key :: "hourly_feat \<Rightarrow> string \<times> string \<times> string" where
  "daily_key r = (client_id r, ext_dev_ref r, date_local r)"

definition device_key :: "daily_record \<Rightarrow> string \<times> string" where
  "device_key r = (d_client_id r, d_ext_dev_ref r)"

text \<open>Line 157: \<^verbatim>\<open>(peak_kwh / mean_kwh).replace(np.inf, 0).fillna(0)\<close>.\<close>

definition peak_to_mean :: "real \<Rightarrow> real \<Rightarrow> fl" where
  "peak_to_mean peak m = fillna_0 (replace_inf_0 (fdiv peak m))"

text \<open>
  Lines 143--164 for one group: the aggregates, the peak row merged in, the ratio, and the
  night and day sums (hours 0--6 and 18--23; no such hour gives 0). The cumulative sum
  and the weekend ratio are filled in afterwards.
\<close>

definition daily_of_group :: "string \<times> string \<times> string \<Rightarrow> hourly_feat list \<Rightarrow> daily_record" where
  "daily_of_group k g =
     (let vs = map consumption_kwh g;
          pk = idxmax consumption_kwh g;
          pk_hour = (case pk of Some p \<Rightarrow> hour p | None \<Rightarrow> 0);
          pk_kwh = (case pk of Some p \<Rightarrow> consumption_kwh p | None \<Rightarrow> 0)
      in \<lparr>d_client_id = fst k, d_ext_dev_ref = fst (snd k), d_date_local = snd (snd k),
          total_kwh = sum_list vs, mean_kwh = mean vs, max_kwh = Max (set vs),
          std_kwh = std vs, hourly_count = length vs,
          peak_hour = pk_hour, peak_kwh = pk_kwh,
          peak_to_mean_ratio = peak_to_mean pk_kwh (mean vs),
          night_kwh = sum_list (map consumption_kwh (filter (\<lambda>r. hour r < 7) g)),
          day_kwh = sum_list (map consumption_kwh (filter (\<lambda>r. 18 \<le> hour r \<and> hour r < 24) g)),
          cumulative_total_kwh = 0, weekend_vs_weekday = NaN,
          d_timestamp = 0, d_year = None, d_month = None, season = None, is_holiday = None,
          is_summer_vacation = None, rolling_total_kwh = [], consumption_category = None\<rparr>)"

text \<open>Line 168: the running sum of \<open>total_kwh\<close> within a device, in row order.\<close>

fun cumsum_by_device :: "daily_record list \<Rightarrow> daily_record list \<Rightarrow> daily_record list" where
  "cumsum_by_device seen [] = []"
| "cumsum_by_device seen (r # rs) =
     r\<lparr>cumulative_total_kwh :=
         sum_list (map total_kwh (filter (\<lambda>s. device_key s = device_key r) seen)) + total_kwh r\<rparr>
       # cumsum_by_device (seen @ [r]) rs"

text \<open>Line 171: \<open>total_kwh\<close> over the device's mean \<open>total_kwh\<close> plus \<open>1e-6\<close>.\<close>

definition weekend_ratio :: "daily_record list \<Rightarrow> daily_record \<Rightarrow> fl" where
  "weekend_ratio rs r =
     fdiv (total_kwh r)
          (mean (map total_kwh (filter (\<lambda>s. device_key s = device_key r) rs)) + 1 / 1000000)"

definition daily_sort_key :: "daily_record \<Rightarrow> string \<times> string \<times> string" where
  "daily_sort_key r = (d_client_id r, d_ext_dev_ref r, d_date_local r)"

text \<open>
  The table's index is taken to be unique, as it is after the feature stages reset it, so
  that \<^verbatim>\<open>df.loc[idx]\<close> selects one peak row per group.
\<close>

definition aggregate_daily_from_hourly :: "hourly_feat frame \<Rightarrow> error + daily_record frame" where
  "aggregate_daily_from_hourly df =
     (if ''date_local'' \<notin> set (columns df) \<and> ''timestamp'' \<notin> set (columns df)
      then Inl KeyError
      else if \<not> set [''client_id'', ''ext_dev_ref'', ''consumption_kwh'', ''hour'']
                  \<subseteq> set (columns df)
      then Inl KeyError
      else
        let rs = (if ''date_local'' \<notin> set (columns df)
                  then map (\<lambda>r. r\<lparr>date_local :=
                              date_isoformat (ord2ymd (timestamp r div 86400))\<rparr>) (rows df)
                  else rows df);
            res = map (\<lambda>k. daily_of_group k (group_of daily_key rs k)) (groupby_keys daily_key rs);
            res = cumsum_by_device [] (sort_key daily_sort_key res);
            res = map (\<lambda>r. r\<lparr>weekend_vs_weekday := weekend_ratio res r\<rparr>) res
        in Inr \<lparr>columns = daily_columns, rows = res\<rparr>)"

subsection \<open>\<^verbatim>\<open>categorize_daily_consumption\<close>\<close>

text \<open>
  \<^verbatim>\<open>pd.cut\<close> with its default right-closed intervals: the label of the first
  interval \<open>(lo, hi]\<close> that holds the value, null when no interval does.
\<close>

fun cut :: "real list \<Rightarrow> string list \<Rightarrow> real \<Rightarrow> string option" where
  "cut (lo # hi # bs) (l # ls) x =
     (if lo < x \<and> x \<le> hi then Some l else cut (hi # bs) ls x)"
| "cut bs ls x = None"

definition default_bins :: "real list" where
  "default_bins = [-1, 5, 15, 50, 999999]"

definition default_labels :: "string list" where
  "default_labels = [''very_low'', ''low'', ''medium'', ''high'']"

text \<open>
  \<^verbatim>\<open>pd.cut\<close> rejects bin edges that do not increase and a number of labels other
  than one per interval.
\<close>

definition categorize_daily_consumption ::
  "daily_record frame \<Rightarrow> real list option \<Rightarrow> string list option \<Rightarrow> error + daily_record frame" where
  "categorize_daily_consumption df_daily bins labels =
     (let bins = (case bins of None \<Rightarrow> default_bins | Some b \<Rightarrow> b);
          labels = (case labels of None \<Rightarrow> default_labels | Some l \<Rightarrow> l)
      in if ''total_kwh'' \<notin> set (columns df_daily) then Inl KeyError
         else if \<not> sorted_wrt (<) bins \<or> length labels + 1 \<noteq> length bins then Inl ValueError
         else Inr \<lparr>columns = (if ''consumption_category'' \<in> set (columns df_daily)
                               then columns df_daily
                               else columns df_daily @ [''consumption_category'']),
                    rows = map (\<lambda>r. r\<lparr>consumption_category := cut bins labels (total_kwh r)\<rparr>)
                             (rows df_daily)\<rparr>)"

subsection \<open>\<^verbatim>\<open>derive_monthly_from_daily\<close>\<close>

record monthly_record =
  mo_client_id :: string
  mo_ext_dev_ref :: string
  mo_year :: int
  mo_month :: int
  monthly_total_kwh :: real
  monthly_mean_kwh :: real
  monthly_max_kwh :: real
  days_with_data :: nat

definition monthly_columns :: "string list" where
  "monthly_columns = [''client_id'', ''ext_dev_ref'', ''year'', ''month'', ''monthly_total_kwh'',
     ''monthly_mean_kwh'', ''monthly_max_kwh'', ''days_with_data'']"

text \<open>
  \<^verbatim>\<open>.round(6)\<close>: to the nearest multiple of \<open>10\<^sup>-\<^sup>6\<close>, a tie going to the even
  one.
\<close>

definition round_half_even :: "real \<Rightarrow> int" where
  "round_half_even x =
     (let f = \<lfloor>x\<rfloor>; d = x - of_int f
      in if d < 1 / 2 then f else if d > 1 / 2 then f + 1 else if even f then f else f + 1)"

definition round6 :: "real \<Rightarrow> real" where
  "round6 x = of_int (round_half_even (x * 1000000)) / 1000000"

text \<open>\<^verbatim>\<open>pd.to_datetime\<close> on a column of strings raises when one of them does not parse.\<close>

fun to_datetime_all :: "(string \<Rightarrow> error + date) \<Rightarrow> string list \<Rightarrow> error + date list" where
  "to_datetime_all P [] = Inr []"
| "to_datetime_all P (s # ss) =
     (case P s of
        Inl e \<Rightarrow> Inl e
      | Inr d \<Rightarrow> (case to_datetime_all P ss of Inl e \<Rightarrow> Inl e | Inr ds \<Rightarrow> Inr (d # ds)))"

text \<open>Lines 241--246: the datetime of each row.\<close>

definition daily_dates ::
  "(string \<Rightarrow> error + date) \<Rightarrow> daily_record frame \<Rightarrow> error + date list" where
  "daily_dates P df =
     (if ''date_local'' \<in> set (columns df)
      then to_datetime_all P (map d_date_local (rows df))
      else if ''timestamp'' \<in> set (columns df)
      then Inr (map (\<lambda>r. ord2ymd (d_timestamp r div 86400)) (rows df))
      else Inl KeyError)"

definition monthly_key :: "daily_record \<times> date \<Rightarrow> string \<times> string \<times> int \<times> int" where
  "monthly_key rd = (d_client_id (fst rd), d_ext_dev_ref (fst rd), year (snd rd), month (snd rd))"

definition monthly_of_group ::
  "string \<times> string \<times> int \<times> int \<Rightarrow> (daily_record \<times> date) list \<Rightarrow> monthly_record" where
  "monthly_of_group k g =
     (let vs = map (total_kwh \<circ> fst) g
      in \<lparr>mo_client_id = fst k, mo_ext_dev_ref = fst (snd k),
          mo_year = fst (snd (snd k)), mo_month = snd (snd (snd k)),
          monthly_total_kwh = round6 (sum_list vs),
          monthly_mean_kwh = round6 (mean vs),
          monthly_max_kwh = round6 (Max (set vs)),
          days_with_data = length vs\<rparr>)"

definition derive_monthly_from_daily ::
  "(string \<Rightarrow> error + date) \<Rightarrow> daily_record frame \<Rightarrow> error + monthly_record frame" where
  "derive_monthly_from_daily P df_daily =
     (case daily_dates P df_daily of
        Inl e \<Rightarrow> Inl e
      | Inr dts \<Rightarrow>
          if \<not> set [''client_id'', ''ext_dev_ref'', ''total_kwh''] \<subseteq> set (columns df_daily)
          then Inl KeyError
          else let rds = zip (rows df_daily) dts
               in Inr \<lparr>columns = monthly_columns,
                       rows = map (\<lambda>k. monthly_of_group k (group_of monthly_key rds k))
                                (groupby_keys monthly_key rds)\<rparr>)"

subsection \<open>\<^verbatim>\<open>add_season_and_holiday_flags\<close>\<close>

text \<open>The month-to-season dictionary of lines 224--229; a month outside it maps to null.\<close>

definition season_of_month :: "int \<Rightarrow> string option" where
  "season_of_month m =
     (if m = 12 \<or> m = 1 \<or> m = 2 then Some ''winter''
      else if m = 3 \<or> m = 4 \<or> m = 5 then Some ''spring''
      else if m = 6 \<or> m = 7 \<or> m = 8 then Some ''summer''
      else if m = 9 \<or> m = 10 \<or> m = 11 then Some ''fall''
      else None)"

text \<open>
  \<open>holidays\<close> stands for membership in \<^verbatim>\<open>holidays.CountryHoliday("LT")\<close>, a
  library table.
\<close>

definition with_flags :: "(date \<Rightarrow> bool) \<Rightarrow> daily_record \<Rightarrow> date \<Rightarrow> daily_record" where
  "with_flags holidays r d =
     r\<lparr>d_month := Some (month d),
       season := season_of_month (month d),
       is_holiday := Some (if holidays d then 1 else 0),
       is_summer_vacation := Some (if month d = 7 \<or> month d = 8 then 1 else 0)\<rparr>"

definition flag_columns :: "string list" where
  "flag_columns = [''month'', ''season'', ''is_holiday'', ''is_summer_vacation'']"

definition add_season_and_holiday_flags ::
  "(string \<Rightarrow> error + date) \<Rightarrow> (date \<Rightarrow> bool) \<Rightarrow> daily_record frame
     \<Rightarrow> error + daily_record frame" where
  "add_season_and_holiday_flags P holidays df_daily =
     (case daily_dates P df_daily of
        Inl e \<Rightarrow> Inl e
      | Inr dts \<Rightarrow>
          Inr \<lparr>columns = with_columns (columns df_daily) flag_columns,
               rows = map (\<lambda>(r, d). with_flags holidays r d) (zip (rows df_daily) dts)\<rparr>)"

subsection \<open>\<^verbatim>\<open>add_rolling_aggregates_daily\<close>\<close>

definition rolling_daily_column :: "int \<Rightarrow> string" where
  "rolling_daily_column w = ''rolling_'' @ str_int w @ ''d_total_kwh''"

definition rolling_sort_key :: "daily_record \<times> date \<Rightarrow> string \<times> string \<times> int" where
  "rolling_sort_key rd = (d_client_id (fst rd), d_ext_dev_ref (fst rd), ymd2ord (snd rd))"

text \<open>
  The values of a daily row's client and device, in table order, and the row's position
  among them.
\<close>

definition client_device_values :: "daily_record list \<Rightarrow> nat \<Rightarrow> real list" where
  "client_device_values rs i =
     map total_kwh (filter (\<lambda>r. device_key r = device_key (rs ! i)) rs)"

definition client_device_pos :: "daily_record list \<Rightarrow> nat \<Rightarrow> nat" where
  "client_device_pos rs i = length (filter (\<lambda>r. device_key r = device_key (rs ! i)) (take i rs))"

text \<open>Lines 188--191 for one window: the trailing mean, current day included, rounded.\<close>

definition add_rolling_daily_column :: "int \<Rightarrow> daily_record list \<Rightarrow> daily_record list" where
  "add_rolling_daily_column w rs =
     map (\<lambda>i. (rs ! i)\<lparr>rolling_total_kwh := set_fcol (rolling_daily_column w)
                   (round6 (mean (rolling_obs (nat w) (map Some (client_device_values rs i))
                                     (client_device_pos rs i))))
                   (rolling_total_kwh (rs ! i))\<rparr>)
       [0..<length rs]"

text \<open>The table sorted by client, device and parsed date (line 185).\<close>

definition sorted_by_date :: "daily_record list \<Rightarrow> date list \<Rightarrow> daily_record list" where
  "sorted_by_date rs dts = map fst (sort_key rolling_sort_key (zip rs dts))"

definition add_rolling_aggregates_daily ::
  "(string \<Rightarrow> error + date) \<Rightarrow> daily_record frame \<Rightarrow> int list \<Rightarrow> error + daily_record frame" where
  "add_rolling_aggregates_daily P df_daily windows =
     (if ''date_local'' \<notin> set (columns df_daily) then Inl KeyError
      else case to_datetime_all P (map d_date_local (rows df_daily)) of
             Inl e \<Rightarrow> Inl e
           | Inr dts \<Rightarrow>
               if \<not> set [''client_id'', ''ext_dev_ref'', ''total_kwh''] \<subseteq> set (columns df_daily)
               then Inl KeyError
               else if list_ex (\<lambda>w. w < 1) windows then Inl ValueError
               else Inr \<lparr>columns = with_columns (columns df_daily)
                                    (map rolling_daily_column windows),
                         rows = fold add_rolling_daily_column windows
                                  (sorted_by_date (rows df_daily) dts)\<rparr>)"

section \<open>The stages on table objects\<close>

text \<open>
  pandas tables are mutable objects and the stages assign columns in place. To state which
  object a stage writes, the tables live in a store: the address of a table is its index,
  \<open>alloc\<close> enters a new table (a copy, or the result of an operation that returns a new
  table, such as \<^verbatim>\<open>sort_values\<close>, \<^verbatim>\<open>merge\<close>, \<^verbatim>\<open>drop\<close> or
  \<^verbatim>\<open>pd.DataFrame\<close>), \<open>put\<close> overwrites the table at an address (a column
  assignment \<^verbatim>\<open>df[col] = ...\<close>). A stage takes the store and the address of its
  argument and returns the store it leaves and the address of the table it returns, or the
  exception it raises.

  The store lists the caller's table, the copy the stage makes of it with the assignments
  made to it, and the table the stage returns; consecutive assignments to one table are one
  \<open>put\<close>, and when the stage raises the copy is left as it was made.
\<close>

datatype table =
    RawT "meter_day frame"
  | HourlyT "hourly_record frame"
  | FeatT "hourly_feat frame"
  | DailyT "daily_record frame"
  | MonthlyT "monthly_record frame"

type_synonym store = "table list"

definition alloc :: "table \<Rightarrow> store \<Rightarrow> store \<times> nat" where
  "alloc t s = (s @ [t], length s)"

definition put :: "nat \<Rightarrow> table \<Rightarrow> store \<Rightarrow> store" where
  "put a t s = s[a := t]"

text \<open>
  \<^verbatim>\<open>expand_daily_array_to_hourly\<close> reads the rows of its argument and builds the
  hourly table from the list it collected.
\<close>

definition expand_st ::
  "(string \<Rightarrow> error + date) \<Rightarrow> tzinfo \<Rightarrow> store \<Rightarrow> nat \<Rightarrow> store \<times> (error + nat)" where
  "expand_st P tz s a =
     (case s ! a of
        RawT df \<Rightarrow>
          (case expand_daily_array_to_hourly P tz df of
             Inl e \<Rightarrow> (s, Inl e)
           | Inr (out, lg) \<Rightarrow> (let (s, df_hourly) = alloc (HourlyT out) s in (s, Inr df_hourly)))
      | _ \<Rightarrow> (s, Inl TypeError))"

text \<open>The rows that line 80 keeps, before the feature columns are assigned.\<close>

definition kept_rows ::
  "(string \<Rightarrow> parsed option) \<Rightarrow> tzinfo \<Rightarrow> hourly_record frame \<Rightarrow> hourly_record frame" where
  "kept_rows parse tz df =
     (case parse_timestamp_local_to_tz parse tz
             (ObjectSeries (map (StrCell \<circ> timestamp_local) (rows df))) of
        Inl e \<Rightarrow> df
      | Inr ps \<Rightarrow> df\<lparr>rows := map fst (parsed_rows (rows df) ps)\<rparr>)"

text \<open>
  \<^verbatim>\<open>add_time_features_hourly\<close>: the column check, \<^verbatim>\<open>df = df.copy()\<close>, and,
  when some timestamp did not parse, \<^verbatim>\<open>df = df.loc[...].copy()\<close>; the columns are
  assigned to the table \<open>df\<close> then names.
\<close>

definition add_time_features_hourly_st ::
  "(string \<Rightarrow> parsed option) \<Rightarrow> tzinfo \<Rightarrow> store \<Rightarrow> nat \<Rightarrow> store \<times> (error + nat)" where
  "add_time_features_hourly_st parse tz s a =
     (case s ! a of
        HourlyT df0 \<Rightarrow>
          if ''timestamp_local'' \<notin> set (columns df0) then (s, Inl KeyError)
          else
            let (s, df) = alloc (HourlyT df0) s
            in (case add_time_features_hourly parse tz df0 of
                  Inl e \<Rightarrow> (s, Inl e)
                | Inr (out, lg) \<Rightarrow>
                    if lg \<noteq> []
                    then let (s, df) = alloc (HourlyT (kept_rows parse tz df0)) s
                         in (put df (FeatT out) s, Inr df)
                    else (put df (FeatT out) s, Inr df))
      | _ \<Rightarrow> (s, Inl TypeError))"

text \<open>
  \<^verbatim>\<open>add_lag_features\<close> and \<^verbatim>\<open>add_rolling_features_hourly\<close>:
  \<^verbatim>\<open>df = df.copy()\<close>, then \<^verbatim>\<open>df = df.sort_values(...).reset_index(drop=True)\<close>,
  and the columns are assigned to the sorted table.
\<close>

definition add_lag_features_st :: "store \<Rightarrow> nat \<Rightarrow> int list \<Rightarrow> store \<times> (error + nat)" where
  "add_lag_features_st s a lags =
     (case s ! a of
        FeatT df0 \<Rightarrow>
          let (s, df) = alloc (FeatT df0) s
          in (case add_lag_features df0 lags of
                Inl e \<Rightarrow> (s, Inl e)
              | Inr out \<Rightarrow>
                  let (s, df) = alloc (FeatT (df0\<lparr>rows := sort_key feat_sort_key (rows df0)\<rparr>)) s
                  in (put df (FeatT out) s, Inr df))
      | _ \<Rightarrow> (s, Inl TypeError))"

definition add_rolling_features_hourly_st :: "store \<Rightarrow> nat \<Rightarrow> int \<Rightarrow> store \<times> (error + nat)" where
  "add_rolling_features_hourly_st s a window_hours =
     (case s ! a of
        FeatT df0 \<Rightarrow>
          let (s, df) = alloc (FeatT df0) s
          in (case add_rolling_features_hourly df0 window_hours of
                Inl e \<Rightarrow> (s, Inl e)
              | Inr out \<Rightarrow>
                  let (s, df) = alloc (FeatT (df0\<lparr>rows := sort_key feat_sort_key (rows df0)\<rparr>)) s
                  in (put df (FeatT out) s, Inr df))
      | _ \<Rightarrow> (s, Inl TypeError))"

text \<open>The copy after line 140 has assigned \<open>date_local\<close> to it.\<close>

definition with_date_local :: "hourly_feat frame \<Rightarrow> hourly_feat frame" where
  "with_date_local df =
     \<lparr>columns = columns df @ [''date_local''],
      rows = map (\<lambda>r. r\<lparr>date_local := date_isoformat (ord2ymd (timestamp r div 86400))\<rparr>)
               (rows df)\<rparr>"

text \<open>
  \<^verbatim>\<open>aggregate_daily_from_hourly\<close>: \<^verbatim>\<open>df = df.copy()\<close>, \<open>date_local\<close> assigned to
  the copy when it is missing; \<open>res\<close> is built by \<^verbatim>\<open>groupby\<close>, \<^verbatim>\<open>merge\<close> and
  \<^verbatim>\<open>sort_values\<close>, and its columns are assigned to it.
\<close>

definition aggregate_daily_from_hourly_st :: "store \<Rightarrow> nat \<Rightarrow> store \<times> (error + nat)" where
  "aggregate_daily_from_hourly_st s a =
     (case s ! a of
        FeatT df0 \<Rightarrow>
          let (s, df) = alloc (FeatT df0) s
          in (case aggregate_daily_from_hourly df0 of
                Inl e \<Rightarrow> (s, Inl e)
              | Inr out \<Rightarrow>
                  let s = (if ''date_local'' \<notin> set (columns df0)
                           then put df (FeatT (with_date_local df0)) s else s);
                      (s, res) = alloc (DailyT out) s
                  in (s, Inr res))
      | _ \<Rightarrow> (s, Inl TypeError))"

text \<open>
  \<^verbatim>\<open>add_season_and_holiday_flags\<close>: the flags and \<open>date_local_dt\<close> are assigned to the
  copy, and \<^verbatim>\<open>df.drop(columns=["date_local_dt"])\<close> is returned.
\<close>

definition add_season_and_holiday_flags_st ::
  "(string \<Rightarrow> error + date) \<Rightarrow> (date \<Rightarrow> bool) \<Rightarrow> store \<Rightarrow> nat \<Rightarrow> store \<times> (error + nat)" where
  "add_season_and_holiday_flags_st P holidays s a =
     (case s ! a of
        DailyT df_daily \<Rightarrow>
          let (s, df) = alloc (DailyT df_daily) s
          in (case add_season_and_holiday_flags P holidays df_daily of
                Inl e \<Rightarrow> (s, Inl e)
              | Inr out \<Rightarrow>
                  let s = put df (DailyT (out\<lparr>columns := columns out @ [''date_local_dt'']\<rparr>)) s;
                      (s, dropped) = alloc (DailyT out) s
                  in (s, Inr dropped))
      | _ \<Rightarrow> (s, Inl TypeError))"

text \<open>
  \<^verbatim>\<open>add_rolling_aggregates_daily\<close>: \<open>date_local_dt\<close> is assigned to the copy, the
  rolling columns to the sorted table, and the table without \<open>date_local_dt\<close> is returned.
\<close>

definition add_rolling_aggregates_daily_st ::
  "(string \<Rightarrow> error + date) \<Rightarrow> store \<Rightarrow> nat \<Rightarrow> int list \<Rightarrow> store \<times> (error + nat)" where
  "add_rolling_aggregates_daily_st P s a windows =
     (case s ! a of
        DailyT df_daily \<Rightarrow>
          let (s, df) = alloc (DailyT df_daily) s
          in (case add_rolling_aggregates_daily P df_daily windows of
                Inl e \<Rightarrow> (s, Inl e)
              | Inr out \<Rightarrow>
                  let s = put df (DailyT (df_daily\<lparr>columns :=
                                   columns df_daily @ [''date_local_dt'']\<rparr>)) s;
                      (s, df) = alloc (DailyT (df_daily\<lparr>columns :=
                                   columns df_daily @ [''date_local_dt''],
                                 rows := sorted_by_date (rows df_daily)
                                   (projr (to_datetime_all P (map d_date_local (rows df_daily))))\<rparr>)) s;
                      s = put df (DailyT (out\<lparr>columns := columns out @ [''date_local_dt'']\<rparr>)) s;
                      (s, dropped) = alloc (DailyT out) s
                  in (s, Inr dropped))
      | _ \<Rightarrow> (s, Inl TypeError))"

text \<open>
  \<^verbatim>\<open>categorize_daily_consumption\<close>: the category is assigned to the copy, which is
  returned.
\<close>

definition categorize_daily_consumption_st ::
  "store \<Rightarrow> nat \<Rightarrow> real list option \<Rightarrow> string list option \<Rightarrow> store \<times> (error + nat)" where
  "categorize_daily_consumption_st s a bins labels =
     (case s ! a of
        DailyT df_daily \<Rightarrow>
          let (s, df) = alloc (DailyT df_daily) s
          in (case categorize_daily_consumption df_daily bins labels of
                Inl e \<Rightarrow> (s, Inl e)
              | Inr out \<Rightarrow> (put df (DailyT out) s, Inr df))
      | _ \<Rightarrow> (s, Inl TypeError))"

text \<open>The copy after lines 248--249 have assigned \<open>year\<close> and \<open>month\<close> to it.\<close>

definition with_year_month :: "(string \<Rightarrow> error + date) \<Rightarrow> daily_record frame \<Rightarrow> daily_record frame" where
  "with_year_month P df =
     \<lparr>columns = with_columns (columns df) [''year'', ''month''],
      rows = map (\<lambda>(r, d). r\<lparr>d_year := Some (year d), d_month := Some (month d)\<rparr>)
               (zip (rows df) (projr (daily_dates P df)))\<rparr>"

text \<open>
  \<^verbatim>\<open>derive_monthly_from_daily\<close>: \<open>year\<close> and \<open>month\<close> are assigned to the copy;
  \<open>m\<close> is built by \<^verbatim>\<open>groupby\<close> and its rounded columns are assigned to it.
\<close>

definition derive_monthly_from_daily_st ::
  "(string \<Rightarrow> error + date) \<Rightarrow> store \<Rightarrow> nat \<Rightarrow> store \<times> (error + nat)" where
  "derive_monthly_from_daily_st P s a =
     (case s ! a of
        DailyT df_daily \<Rightarrow>
          let (s, df) = alloc (DailyT df_daily) s
          in (case derive_monthly_from_daily P df_daily of
                Inl e \<Rightarrow> (s, Inl e)
              | Inr out \<Rightarrow>
                  let s = put df (DailyT (with_year_month P df_daily)) s;
                      (s, m) = alloc (MonthlyT out) s
                  in (s, Inr m))
      | _ \<Rightarrow> (s, Inl TypeError))"

subsection \<open>What a stage leaves behind\<close>

text \<open>
  The pure stages as functions on tables: a table of another kind lacks the stage's
  columns.
\<close>

definition on_raw :: "(meter_day frame \<Rightarrow> error + table) \<Rightarrow> table \<Rightarrow> error + table" where
  "on_raw f t = (case t of RawT df \<Rightarrow> f df | _ \<Rightarrow> Inl TypeError)"

definition on_hourly :: "(hourly_record frame \<Rightarrow> error + table) \<Rightarrow> table \<Rightarrow> error + table" where
  "on_hourly f t = (case t of HourlyT df \<Rightarrow> f df | _ \<Rightarrow> Inl TypeError)"

definition on_feat :: "(hourly_feat frame \<Rightarrow> error + table) \<Rightarrow> table \<Rightarrow> error + table" where
  "on_feat f t = (case t of FeatT df \<Rightarrow> f df | _ \<Rightarrow> Inl TypeError)"

definition on_daily :: "(daily_record frame \<Rightarrow> error + table) \<Rightarrow> table \<Rightarrow> error + table" where
  "on_daily f t = (case t of DailyT df \<Rightarrow> f df | _ \<Rightarrow> Inl TypeError)"

text \<open>
  A stage run on the table at address \<open>a\<close> derives \<open>f\<close> of that table when every table that
  was in the store is still there unchanged, and the stage either raises what \<open>f\<close> raises
  or returns the address of a table entered by this run that holds what \<open>f\<close> returns.
\<close>

definition derives ::
  "(table \<Rightarrow> error + table) \<Rightarrow> store \<Rightarrow> nat \<Rightarrow> store \<times> (error + nat) \<Rightarrow> bool" where
  "derives f s a res =
     ((\<forall>x < length s. fst res ! x = s ! x)
      \<and> (case snd res of
           Inl e \<Rightarrow> f (s ! a) = Inl e
         | Inr b \<Rightarrow> length s \<le> b \<and> b < length (fst res) \<and> f (s ! a) = Inr (fst res ! b)))"

section \<open>Auxiliary definitions\<close>

subsection \<open>Reading the expander's loop row by row\<close>

text \<open>What the iteration on one row appends to \<open>rows\<close> and to the log when it raises nothing.\<close>

definition row_out ::
  "(string \<Rightarrow> error + date) \<Rightarrow> tzinfo \<Rightarrow> string list \<Rightarrow> nat \<times> meter_day
     \<Rightarrow> hourly_record list" where
  "row_out P tz cols ir =
     (case expand_row P tz cols (fst ir) (snd ir) of Inl e \<Rightarrow> [] | Inr (recs, w) \<Rightarrow> recs)"

definition row_log ::
  "(string \<Rightarrow> error + date) \<Rightarrow> tzinfo \<Rightarrow> string list \<Rightarrow> nat \<times> meter_day
     \<Rightarrow> log_record list" where
  "row_log P tz cols ir =
     (case expand_row P tz cols (fst ir) (snd ir) of Inl e \<Rightarrow> [] | Inr (recs, w) \<Rightarrow> w)"

text \<open>The rows on which the iteration raises nothing.\<close>

definition row_ok :: "(string \<Rightarrow> error + date) \<Rightarrow> meter_day \<Rightarrow> bool" where
  "row_ok P r =
     (valid_array (m_energy_consumption r) \<longrightarrow> (\<exists>d. resolve_date P (m_date r) = Inr d))"

text \<open>The loop without its row indices and its log.\<close>

fun loop_rows ::
  "(string \<Rightarrow> error + date) \<Rightarrow> tzinfo \<Rightarrow> string list \<Rightarrow> meter_day list
     \<Rightarrow> hourly_record list \<Rightarrow> error + hourly_record list" where
  "loop_rows P tz cols [] out = Inr out"
| "loop_rows P tz cols (r # rs) out =
     (case expand_row P tz cols 0 r of
        Inl e \<Rightarrow> Inl e
      | Inr (recs, w) \<Rightarrow> loop_rows P tz cols rs (out @ recs))"

subsection \<open>The zone's rules at an emitted timestamp\<close>

text \<open>
  An aware timestamp honours the zone's rules when the offset it carries is the offset
  the zone prescribes at the instant it denotes.
\<close>

definition honours_zone_rules :: "tzinfo \<Rightarrow> aware \<Rightarrow> bool" where
  "honours_zone_rules tz t = (utcoff t = utcoffset_at tz (instant t))"

subsection \<open>Sample inputs\<close>

definition no_parser :: "string \<Rightarrow> error + date" where
  "no_parser s = Inl ValueError"

definition hours_0_23 :: "real list" where
  "hours_0_23 = [0, 1, 2, 3, 4, 5, 6, 7, 8, 9, 10, 11, 12, 13, 14, 15, 16, 17, 18, 19, 20,
     21, 22, 23]"

definition june_day :: meter_day where
  "june_day = \<lparr>m_client_id = ''c1'', m_ext_dev_ref = ''m1'',
     m_date = DateV \<lparr>year = 2024, month = 6, day = 15\<rparr>,
     m_energy_consumption = ArrayLike hours_0_23, m_resolution = Some ''PT1H''\<rparr>"

definition march_day :: meter_day where
  "march_day = \<lparr>m_client_id = ''c1'', m_ext_dev_ref = ''m1'',
     m_date = DateV \<lparr>year = 2024, month = 3, day = 31\<rparr>,
     m_energy_consumption = ArrayLike hours_0_23, m_resolution = Some ''PT1H''\<rparr>"

definition short_day :: meter_day where
  "short_day = \<lparr>m_client_id = ''c1'', m_ext_dev_ref = ''m1'',
     m_date = DateV \<lparr>year = 2024, month = 6, day = 16\<rparr>,
     m_energy_consumption = ArrayLike (butlast hours_0_23), m_resolution = Some ''PT1H''\<rparr>"

definition meter_columns :: "string list" where
  "meter_columns = [''client_id'', ''ext_dev_ref'', ''date'', ''energy_consumption'',
     ''resolution'']"

text \<open>A parser for the ISO dates \<^verbatim>\<open>YYYY-MM-DD\<close>, on which it agrees with pandas.\<close>

definition iso_date_parser :: "string \<Rightarrow> error + date" where
  "iso_date_parser s =
     (if length s = 10 \<and> s ! 4 = CHR ''-'' \<and> s ! 7 = CHR ''-''
         \<and> list_all is_digit (take 4 s @ take 2 (drop 5 s) @ drop 8 s)
      then Inr \<lparr>year = number (take 4 s), month = number (take 2 (drop 5 s)),
                day = number (drop 8 s)\<rparr>
      else Inl ValueError)"

definition feat_sample :: "string \<Rightarrow> string \<Rightarrow> string \<Rightarrow> nat \<Rightarrow> real \<Rightarrow> hourly_feat" where
  "feat_sample c dev dt h v =
     \<lparr>client_id = c, ext_dev_ref = dev, resolution = None, date_local = dt, hour = h,
      timestamp_local = [], timestamp_utc = [], consumption_kwh = v,
      timestamp = 0, day_of_week = 0, is_weekend = 0,
      f_month = 0, f_year = 0, fcols = []\<rparr>"

definition feat_columns :: "string list" where
  "feat_columns = [''client_id'', ''ext_dev_ref'', ''resolution'', ''date_local'', ''hour'',
     ''timestamp_local'', ''timestamp_utc'', ''consumption_kwh'', ''timestamp'',
     ''day_of_week'', ''is_weekend'', ''month'', ''year'']"

definition daily_sample :: "string \<Rightarrow> string \<Rightarrow> string \<Rightarrow> real \<Rightarrow> daily_record" where
  "daily_sample c dev dt t =
     \<lparr>d_client_id = c, d_ext_dev_ref = dev, d_date_local = dt,
      total_kwh = t, mean_kwh = t / 24, max_kwh = t, std_kwh = None, hourly_count = 24,
      peak_hour = 0, peak_kwh = t, peak_to_mean_ratio = Fin 0, night_kwh = 0, day_kwh = 0,
      cumulative_total_kwh = t, weekend_vs_weekday = Fin 1,
      d_timestamp = 0, d_year = None, d_month = None, season = None, is_holiday = None,
      is_summer_vacation = None, rolling_total_kwh = [], consumption_category = None\<rparr>"

subsection \<open>Keys of the monthly groups\<close>

definition monthly_id :: "monthly_record \<Rightarrow> string \<times> string \<times> int \<times> int" where
  "monthly_id m = (mo_client_id m, mo_ext_dev_ref m, mo_year m, mo_month m)"

text \<open>The client, device, year and month of a daily row whose \<open>date_local\<close> parses.\<close>

definition daily_month_id ::
  "(string \<Rightarrow> error + date) \<Rightarrow> daily_record \<Rightarrow> string \<times> string \<times> int \<times> int" where
  "daily_month_id P r =
     (d_client_id r, d_ext_dev_ref r,
      year (projr (P (d_date_local r))), month (projr (P (d_date_local r))))"






definition hourly_sample :: "string \<Rightarrow> string \<Rightarrow> real \<Rightarrow> hourly_record" where
  "hourly_sample dev ts v =
     \<lparr>client_id = ''c1'', ext_dev_ref = dev, resolution = None, date_local = take 10 ts,
      hour = 0, timestamp_local = ts, timestamp_utc = [], consumption_kwh = v\<rparr>"

section \<open>Properties of the hourly expander\<close>

subsection \<open>The loop, row by row\<close>

lemma expand_row_ok:
  "row_ok P r \<Longrightarrow>
   expand_row P tz cols i r = Inr (row_out P tz cols (i, r), row_log P tz cols (i, r))"
  by (auto simp: row_ok_def row_out_def row_log_def expand_row_def valid_array_def
      split: arr_cell.splits sum.splits)

lemma expand_row_Inr_ok:
  "expand_row P tz cols i r = Inr x \<Longrightarrow> row_ok P r"
  by (auto simp: row_ok_def expand_row_def valid_array_def
      split: arr_cell.splits sum.splits if_splits)

lemma expand_loop_Inr_iff:
  "expand_loop P tz cols irs (out, lg) = Inr res \<longleftrightarrow>
     (\<forall>ir \<in> set irs. row_ok P (snd ir)) \<and>
     res = (out @ concat (map (row_out P tz cols) irs),
            lg @ concat (map (row_log P tz cols) irs))"
proof (induction irs arbitrary: out lg)
  case Nil
  then show ?case by auto
next
  case (Cons ir irs)
  obtain i r where ir: "ir = (i, r)" by (cases ir)
  show ?case
  proof (cases "expand_row P tz cols i r")
    case (Inl e)
    then have "\<not> row_ok P r" using expand_row_ok[of P r tz cols i] by auto
    with Inl show ?thesis by (simp add: ir)
  next
    case (Inr x)
    then have ok: "row_ok P r" by (rule expand_row_Inr_ok)
    from expand_row_ok[OF ok, of tz cols i] Cons.IH ok show ?thesis
      by (simp add: ir)
  qed
qed


lemma row_log_invalid:
  "\<not> valid_array (m_energy_consumption r) \<Longrightarrow>
   row_log P tz cols (i, r) = [Warn_invalid_array i (m_ext_dev_ref r) (m_date r)]"
  by (auto simp: row_log_def expand_row_def valid_array_def split: arr_cell.splits)



lemma nth_emit_hours:
  "h < length arr \<Longrightarrow> emit_hours tz cols r d arr ! h =
     \<lparr>client_id = m_client_id r, ext_dev_ref = m_ext_dev_ref r,
      resolution = row_get_resolution cols r, date_local = date_isoformat d, hour = h,
      timestamp_local = isoformat (add_hours (localize tz (combine_midnight d)) h),
      timestamp_utc = isoformat (astimezone_utc (add_hours (localize tz (combine_midnight d)) h)),
      consumption_kwh = arr ! h\<rparr>"
  by (simp add: emit_hours_def Let_def nth_enumerate_eq)





lemma set_enumerate_snd: "snd ` set (enumerate n xs) = set xs"
  by (metis map_snd_enumerate set_map)

lemma enumerate_rows_ok:
  assumes "\<forall>r \<in> set xs. row_ok P r"
  shows "\<forall>ir \<in> set (enumerate n xs). row_ok P (snd ir)"
proof
  fix ir
  assume "ir \<in> set (enumerate n xs)"
  then have "snd ir \<in> snd ` set (enumerate n xs)" by (rule imageI)
  then have "snd ir \<in> set xs" by (simp only: set_enumerate_snd)
  with assms show "row_ok P (snd ir)" by blast
qed


lemma set_concat_map_mem: "x \<in> set xs \<Longrightarrow> set (f x) \<subseteq> set (concat (map f xs))"
  by auto

subsection \<open>The whole table\<close>


lemma expand_Inr_log:
  assumes "expand_daily_array_to_hourly P tz df = Inr (out, lg)"
  shows "set (concat (map (row_log P tz (columns df)) (enumerate 0 (rows df)))) \<subseteq> set lg"
proof -
  from assms have cols: "set required \<subseteq> set (columns df)"
    by (auto simp: expand_daily_array_to_hourly_def split: if_splits)
  from assms cols obtain o1 l1 where
    loop: "expand_loop P tz (columns df) (enumerate 0 (rows df)) ([], []) = Inr (o1, l1)"
    by (auto simp: expand_daily_array_to_hourly_def split: sum.splits)
  from loop have l1: "l1 = concat (map (row_log P tz (columns df)) (enumerate 0 (rows df)))"
    by (simp add: expand_loop_Inr_iff)
  from assms cols loop have "set l1 \<subseteq> set lg"
    by (auto simp: expand_daily_array_to_hourly_def split: if_splits)
  with l1 show ?thesis by simp
qed

lemma expand_returns:
  assumes cols: "set required \<subseteq> set (columns df)"
    and ok: "\<forall>r \<in> set (rows df). row_ok P r"
  shows "\<exists>out lg. expand_daily_array_to_hourly P tz df = Inr (out, lg)"
proof -
  from ok have "\<forall>ir \<in> set (enumerate 0 (rows df)). row_ok P (snd ir)"
    by (rule enumerate_rows_ok)
  then have "\<exists>res. expand_loop P tz (columns df) (enumerate 0 (rows df)) ([], []) = Inr res"
    by (simp add: expand_loop_Inr_iff)
  then obtain o1 l1 where
    "expand_loop P tz (columns df) (enumerate 0 (rows df)) ([], []) = Inr (o1, l1)"
    by force
  with cols show ?thesis by (simp add: expand_daily_array_to_hourly_def)
qed




lemma hours_0_23_length: "length hours_0_23 = 24"
  by (simp add: hours_0_23_def)

lemma june_day_ok: "row_ok no_parser june_day"
  by (simp add: row_ok_def june_day_def resolve_date_def)

lemma meter_columns_required: "set required \<subseteq> set meter_columns"
  by (simp add: required_def meter_columns_def)



subsection \<open>Invalid rows and empty tables\<close>

lemma expand_row_idx:
  "map_sum id fst (expand_row P tz cols i r) = map_sum id fst (expand_row P tz cols j r)"
  by (simp add: expand_row_def split: arr_cell.splits sum.splits)

lemma expand_loop_rows:
  "map_sum id fst (expand_loop P tz cols irs (out, lg)) = loop_rows P tz cols (map snd irs) out"
proof (induction irs arbitrary: out lg)
  case Nil
  then show ?case by simp
next
  case (Cons ir irs)
  obtain i r where ir: "ir = (i, r)" by (cases ir)
  from expand_row_idx[of P tz cols i r 0] Cons.IH show ?case
    by (cases "expand_row P tz cols i r"; cases "expand_row P tz cols 0 r")
       (auto simp: ir)
qed

lemma loop_rows_drop_invalid:
  assumes "\<not> valid_array (m_energy_consumption r)"
  shows "loop_rows P tz cols (xs @ r # ys) out = loop_rows P tz cols (xs @ ys) out"
proof (induction xs arbitrary: out)
  case Nil
  from assms have "expand_row P tz cols 0 r
      = Inr ([], [Warn_invalid_array 0 (m_ext_dev_ref r) (m_date r)])"
    by (auto simp: expand_row_def valid_array_def split: arr_cell.splits)
  then show ?case by simp
next
  case (Cons x xs)
  then show ?case by (simp split: sum.splits)
qed

lemma expand_by_loop_rows:
  "map_sum id fst (expand_daily_array_to_hourly P tz df) =
     (if \<not> set required \<subseteq> set (columns df) then Inl ValueError
      else case loop_rows P tz (columns df) (rows df) [] of
             Inl e \<Rightarrow> Inl e
           | Inr out \<Rightarrow> Inr (if out = [] then \<lparr>columns = [], rows = []\<rparr>
                            else \<lparr>columns = hourly_columns,
                                  rows = sort_key hourly_sort_key out\<rparr>))"
proof (cases "set required \<subseteq> set (columns df)")
  case False
  then show ?thesis by (simp add: expand_daily_array_to_hourly_def)
next
  case True
  have l: "map_sum id fst (expand_loop P tz (columns df) (enumerate 0 (rows df)) ([], []))
      = loop_rows P tz (columns df) (rows df) []"
    by (simp add: expand_loop_rows)
  show ?thesis
  proof (cases "expand_loop P tz (columns df) (enumerate 0 (rows df)) ([], [])")
    case (Inl e)
    from l Inl have "loop_rows P tz (columns df) (rows df) [] = Inl e" by simp
    with True Inl show ?thesis by (simp add: expand_daily_array_to_hourly_def)
  next
    case (Inr res)
    obtain o1 l1 where res: "res = (o1, l1)" by (cases res)
    from l Inr res have "loop_rows P tz (columns df) (rows df) [] = Inr o1" by simp
    with True Inr res show ?thesis by (simp add: expand_daily_array_to_hourly_def)
  qed
qed

lemma expand_drop_invalid:
  assumes "\<not> valid_array (m_energy_consumption r)"
  shows "map_sum id fst (expand_daily_array_to_hourly P tz \<lparr>columns = cs, rows = xs @ r # ys\<rparr>)
       = map_sum id fst (expand_daily_array_to_hourly P tz \<lparr>columns = cs, rows = xs @ ys\<rparr>)"
  by (simp add: expand_by_loop_rows loop_rows_drop_invalid[OF assms])

lemma expand_logs_invalid:
  assumes inv: "\<not> valid_array (m_energy_consumption r)"
    and run: "expand_daily_array_to_hourly P tz \<lparr>columns = cs, rows = xs @ r # ys\<rparr>
                = Inr (out, lg)"
  shows "Warn_invalid_array (length xs) (m_ext_dev_ref r) (m_date r) \<in> set lg"
proof -
  have "enumerate 0 (xs @ r # ys) ! length xs = (length xs, r)"
    by (simp add: nth_enumerate_eq)
  moreover have "length xs < length (enumerate 0 (xs @ r # ys))" by simp
  ultimately have "(length xs, r) \<in> set (enumerate 0 (xs @ r # ys))"
    by (metis nth_mem)
  then have "set (row_log P tz cs (length xs, r))
      \<subseteq> set (concat (map (row_log P tz cs) (enumerate 0 (xs @ r # ys))))"
    by (rule set_concat_map_mem)
  also have "\<dots> \<subseteq> set lg" using expand_Inr_log[OF run] by simp
  finally show ?thesis by (simp add: row_log_invalid[OF inv])
qed

text \<open>
  C6. A row whose \<open>energy_consumption\<close> is not an array-like of length 24 is skipped: the
  iteration raises nothing, appends no record and logs one warning naming the row. The
  table the expander returns (or the exception it raises on another row) is the one it
  returns without that row, and a run that returns has logged the warning.
\<close>

theorem invalid_row_dropped_with_warning:
  assumes "\<not> valid_array (m_energy_consumption r)"
  shows "expand_row P tz cols idx r
           = Inr ([], [Warn_invalid_array idx (m_ext_dev_ref r) (m_date r)])
       \<and> map_sum id fst
            (expand_daily_array_to_hourly P tz \<lparr>columns = cs, rows = xs @ r # ys\<rparr>)
         = map_sum id fst (expand_daily_array_to_hourly P tz \<lparr>columns = cs, rows = xs @ ys\<rparr>)
       \<and> (\<forall>out lg. expand_daily_array_to_hourly P tz \<lparr>columns = cs, rows = xs @ r # ys\<rparr>
                       = Inr (out, lg)
            \<longrightarrow> Warn_invalid_array (length xs) (m_ext_dev_ref r) (m_date r) \<in> set lg)"
proof (intro conjI allI impI)
  from assms show "expand_row P tz cols idx r
      = Inr ([], [Warn_invalid_array idx (m_ext_dev_ref r) (m_date r)])"
    by (auto simp: expand_row_def valid_array_def split: arr_cell.splits)
next
  from assms show "map_sum id fst
            (expand_daily_array_to_hourly P tz \<lparr>columns = cs, rows = xs @ r # ys\<rparr>)
         = map_sum id fst (expand_daily_array_to_hourly P tz \<lparr>columns = cs, rows = xs @ ys\<rparr>)"
    by (rule expand_drop_invalid)
next
  fix out lg
  assume "expand_daily_array_to_hourly P tz \<lparr>columns = cs, rows = xs @ r # ys\<rparr> = Inr (out, lg)"
  with assms show "Warn_invalid_array (length xs) (m_ext_dev_ref r) (m_date r) \<in> set lg"
    by (rule expand_logs_invalid)
qed

lemma short_day_invalid: "\<not> valid_array (m_energy_consumption short_day)"
  by (simp add: short_day_def valid_array_def hours_0_23_def)

theorem invalid_row_dropped_with_warning_witness:
  "expand_row no_parser vilnius_2024 meter_columns 1 short_day
     = Inr ([], [Warn_invalid_array 1 ''m1'' (DateV \<lparr>year = 2024, month = 6, day = 16\<rparr>)])
   \<and> map_sum id fst (expand_daily_array_to_hourly no_parser vilnius_2024
         \<lparr>columns = meter_columns, rows = [june_day, short_day]\<rparr>)
     = map_sum id fst (expand_daily_array_to_hourly no_parser vilnius_2024
         \<lparr>columns = meter_columns, rows = [june_day]\<rparr>)
   \<and> (\<exists>out lg. expand_daily_array_to_hourly no_parser vilnius_2024
         \<lparr>columns = meter_columns, rows = [june_day, short_day]\<rparr> = Inr (out, lg)
        \<and> Warn_invalid_array 1 ''m1'' (DateV \<lparr>year = 2024, month = 6, day = 16\<rparr>) \<in> set lg)"
proof -
  note th = invalid_row_dropped_with_warning[OF short_day_invalid,
      where P = no_parser and tz = vilnius_2024 and cols = meter_columns and idx = 1
        and cs = meter_columns and xs = "[june_day]" and ys = "[]"]
  have sd: "m_ext_dev_ref short_day = ''m1''"
    "m_date short_day = DateV \<lparr>year = 2024, month = 6, day = 16\<rparr>"
    by (simp_all add: short_day_def)
  have "row_ok no_parser short_day"
    using short_day_invalid by (simp add: row_ok_def)
  then have "\<exists>out lg. expand_daily_array_to_hourly no_parser vilnius_2024
         \<lparr>columns = meter_columns, rows = [june_day, short_day]\<rparr> = Inr (out, lg)"
    by (intro expand_returns) (simp_all add: meter_columns_required june_day_ok)
  then obtain out lg where run: "expand_daily_array_to_hourly no_parser vilnius_2024
         \<lparr>columns = meter_columns, rows = [june_day, short_day]\<rparr> = Inr (out, lg)"
    by blast
  from th run have "Warn_invalid_array 1 ''m1'' (DateV \<lparr>year = 2024, month = 6, day = 16\<rparr>)
      \<in> set lg"
    by (simp add: sd)
  with th run show ?thesis by (simp add: sd)
qed

text \<open>
  C8, as amended. On a table with no rows that has the columns \<open>client_id\<close>,
  \<open>ext_dev_ref\<close>, \<open>date\<close> and \<open>energy_consumption\<close>, the expander returns the empty table
  and logs the warning that the hourly table is empty.
\<close>

theorem empty_input_with_columns_gives_empty_output:
  assumes "rows df = []" and "set required \<subseteq> set (columns df)"
  shows "expand_daily_array_to_hourly P tz df
           = Inr (\<lparr>columns = [], rows = []\<rparr>, [Warn_empty_hourly])"
  using assms by (simp add: expand_daily_array_to_hourly_def)

theorem empty_input_with_columns_gives_empty_output_witness:
  "expand_daily_array_to_hourly no_parser vilnius_2024 \<lparr>columns = meter_columns, rows = []\<rparr>
     = Inr (\<lparr>columns = [], rows = []\<rparr>, [Warn_empty_hourly])"
  using empty_input_with_columns_gives_empty_output
          [of "\<lparr>columns = meter_columns, rows = []\<rparr>" no_parser vilnius_2024]
  by (simp add: meter_columns_required)

text \<open>
  C8 as stated fails: the table without rows and without columns, which
  \<^verbatim>\<open>read_all_parquets\<close> returns when no file matches, makes the expander raise
  \<^verbatim>\<open>ValueError\<close> at its column check.
\<close>

theorem empty_input_without_columns_raises:
  "expand_daily_array_to_hourly no_parser vilnius_2024 \<lparr>columns = [], rows = []\<rparr>
     = Inl ValueError"
  by (simp add: expand_daily_array_to_hourly_def required_def)

subsection \<open>Offsets of the emitted timestamps\<close>

text \<open>
  C3, as amended. Local midnight carries the offset the zone gives it on that date, and
  each of the 24 timestamps of a row keeps that offset: \<open>timestamp_local\<close> is midnight's
  wall clock plus \<open>h\<close> hours at the midnight offset, \<open>timestamp_utc\<close> is the UTC instant of
  local midnight plus \<open>h\<close> elapsed hours. The local timestamp agrees with the zone's rules
  at hour \<open>h\<close> exactly when the zone's offset at that instant is the midnight offset.
\<close>

theorem expander_keeps_midnight_offset:
  assumes arr: "m_energy_consumption r = ArrayLike arr" and len: "length arr = 24"
    and dt: "resolve_date P (m_date r) = Inr d" and h: "h < 24"
  shows "\<exists>recs. expand_row P tz cols idx r = Inr (recs, [])
       \<and> timestamp_local (recs ! h)
           = isoformat \<lparr>wall = combine_midnight d + 3600 * int h,
                        utcoff = localize_off tz (combine_midnight d)\<rparr>
       \<and> timestamp_utc (recs ! h)
           = isoformat \<lparr>wall = instant (localize tz (combine_midnight d)) + 3600 * int h,
                        utcoff = 0\<rparr>
       \<and> (honours_zone_rules tz (add_hours (localize tz (combine_midnight d)) h) \<longleftrightarrow>
            utcoffset_at tz (instant (localize tz (combine_midnight d)) + 3600 * int h)
              = localize_off tz (combine_midnight d))"
proof -
  have run: "expand_row P tz cols idx r = Inr (emit_hours tz cols r d arr, [])"
    using arr len dt by (simp add: expand_row_def)
  have hl: "h < length arr" using h len by simp
  have tl: "timestamp_local (emit_hours tz cols r d arr ! h)
      = isoformat \<lparr>wall = combine_midnight d + 3600 * int h,
                   utcoff = localize_off tz (combine_midnight d)\<rparr>"
    by (simp add: nth_emit_hours[OF hl] add_hours_def localize_def)
  have tu: "timestamp_utc (emit_hours tz cols r d arr ! h)
      = isoformat \<lparr>wall = instant (localize tz (combine_midnight d)) + 3600 * int h,
                   utcoff = 0\<rparr>"
  proof -
    have "astimezone_utc (add_hours (localize tz (combine_midnight d)) h)
        = \<lparr>wall = instant (localize tz (combine_midnight d)) + 3600 * int h, utcoff = 0\<rparr>"
      by (simp add: add_hours_def localize_def astimezone_utc_def instant_def)
    then show ?thesis by (simp add: nth_emit_hours[OF hl])
  qed
  have hz: "honours_zone_rules tz (add_hours (localize tz (combine_midnight d)) h) \<longleftrightarrow>
            utcoffset_at tz (instant (localize tz (combine_midnight d)) + 3600 * int h)
              = localize_off tz (combine_midnight d)"
    by (auto simp: honours_zone_rules_def add_hours_def localize_def instant_def
        algebra_simps)
  from run tl tu hz show ?thesis by blast
qed

theorem expander_keeps_midnight_offset_witness:
  "\<exists>recs. expand_row no_parser vilnius_2024 meter_columns 0 june_day = Inr (recs, [])
       \<and> timestamp_local (recs ! 4) = ''2024-06-15T04:00:00+03:00''
       \<and> timestamp_utc (recs ! 4) = ''2024-06-15T01:00:00+00:00''
       \<and> honours_zone_rules vilnius_2024
            (add_hours (localize vilnius_2024
               (combine_midnight \<lparr>year = 2024, month = 6, day = 15\<rparr>)) 4)"
proof -
  have a: "m_energy_consumption june_day = ArrayLike hours_0_23"
    by (simp add: june_day_def)
  have d: "resolve_date no_parser (m_date june_day) = Inr \<lparr>year = 2024, month = 6, day = 15\<rparr>"
    by (simp add: june_day_def resolve_date_def)
  have h: "(4::nat) < 24" by simp
  have e1: "isoformat \<lparr>wall = combine_midnight \<lparr>year = 2024, month = 6, day = 15\<rparr> + 3600 * int 4,
              utcoff = localize_off vilnius_2024
                 (combine_midnight \<lparr>year = 2024, month = 6, day = 15\<rparr>)\<rparr>
            = ''2024-06-15T04:00:00+03:00''"
    by code_simp
  have e2: "isoformat \<lparr>wall = instant (localize vilnius_2024
                 (combine_midnight \<lparr>year = 2024, month = 6, day = 15\<rparr>)) + 3600 * int 4,
              utcoff = 0\<rparr>
            = ''2024-06-15T01:00:00+00:00''"
    by code_simp
  have e3: "utcoffset_at vilnius_2024 (instant (localize vilnius_2024
                 (combine_midnight \<lparr>year = 2024, month = 6, day = 15\<rparr>)) + 3600 * int 4)
            = localize_off vilnius_2024 (combine_midnight \<lparr>year = 2024, month = 6, day = 15\<rparr>)"
    by code_simp
  from expander_keeps_midnight_offset[OF a hours_0_23_length d h,
      where tz = vilnius_2024 and cols = meter_columns and idx = 0]
  show ?thesis unfolding e1 e2 e3 by blast
qed

text \<open>
  C3 as stated fails on the day the zone moves its clock forward. For 2024-03-31 in
  Europe/Vilnius the record of hour 4 is stamped \<open>04:00+02:00\<close>, the offset of midnight,
  while the zone's offset at that instant (02:00 UTC, after the transition at 01:00 UTC)
  is +03:00.
\<close>

theorem expander_offset_on_transition_day:
  "expand_row no_parser vilnius_2024 meter_columns 0 march_day
     = Inr (emit_hours vilnius_2024 meter_columns march_day
              \<lparr>year = 2024, month = 3, day = 31\<rparr> hours_0_23, [])
   \<and> timestamp_local (emit_hours vilnius_2024 meter_columns march_day
        \<lparr>year = 2024, month = 3, day = 31\<rparr> hours_0_23 ! 4) = ''2024-03-31T04:00:00+02:00''
   \<and> utcoffset_at vilnius_2024 (instant (add_hours (localize vilnius_2024
        (combine_midnight \<lparr>year = 2024, month = 3, day = 31\<rparr>)) 4)) = 10800
   \<and> \<not> honours_zone_rules vilnius_2024 (add_hours (localize vilnius_2024
        (combine_midnight \<lparr>year = 2024, month = 3, day = 31\<rparr>)) 4)"
proof (intro conjI)
  show "expand_row no_parser vilnius_2024 meter_columns 0 march_day
     = Inr (emit_hours vilnius_2024 meter_columns march_day
              \<lparr>year = 2024, month = 3, day = 31\<rparr> hours_0_23, [])"
    by (simp add: expand_row_def march_day_def hours_0_23_length resolve_date_def)
  have "(4::nat) < length hours_0_23" by (simp add: hours_0_23_length)
  note n = nth_emit_hours[OF this]
  have "isoformat (add_hours (localize vilnius_2024
        (combine_midnight \<lparr>year = 2024, month = 3, day = 31\<rparr>)) 4)
        = ''2024-03-31T04:00:00+02:00''"
    by code_simp
  then show "timestamp_local (emit_hours vilnius_2024 meter_columns march_day
        \<lparr>year = 2024, month = 3, day = 31\<rparr> hours_0_23 ! 4) = ''2024-03-31T04:00:00+02:00''"
    by (simp add: n)
  show "utcoffset_at vilnius_2024 (instant (add_hours (localize vilnius_2024
        (combine_midnight \<lparr>year = 2024, month = 3, day = 31\<rparr>)) 4)) = 10800"
    by code_simp
  show "\<not> honours_zone_rules vilnius_2024 (add_hours (localize vilnius_2024
        (combine_midnight \<lparr>year = 2024, month = 3, day = 31\<rparr>)) 4)"
    by code_simp
qed

section \<open>Properties of the daily and monthly aggregation\<close>

subsection \<open>Groups\<close>

lemma groupby_keys_set: "set (groupby_keys key rs) = key ` set rs"
  by (simp add: groupby_keys_def)

lemma groupby_keys_distinct: "distinct (groupby_keys key rs)"
  by (simp add: groupby_keys_def)

lemma groupby_keys_sorted: "sorted (groupby_keys key rs)"
  by (simp add: groupby_keys_def)







subsection \<open>The peak-to-mean ratio\<close>










subsection \<open>Consumption categories\<close>

lemma cut_default:
  "cut default_bins default_labels t =
     (if -1 < t \<and> t \<le> 5 then Some ''very_low''
      else if 5 < t \<and> t \<le> 15 then Some ''low''
      else if 15 < t \<and> t \<le> 50 then Some ''medium''
      else if 50 < t \<and> t \<le> 999999 then Some ''high''
      else None)"
  by (simp add: default_bins_def default_labels_def)

text \<open>
  C7, as amended. With the default bins and labels, \<open>consumption_category\<close> is
  \<open>very_low\<close> on \<open>(-1, 5]\<close>, \<open>low\<close> on \<open>(5, 15]\<close>, \<open>medium\<close> on \<open>(15, 50]\<close>, \<open>high\<close> on
  \<open>(50, 999999]\<close>, and null for a \<open>total_kwh\<close> outside \<open>(-1, 999999]\<close>.
\<close>

theorem consumption_category_bins:
  assumes "''total_kwh'' \<in> set (columns df)"
  shows "\<exists>out. categorize_daily_consumption df None None = Inr out
     \<and> length (rows out) = length (rows df)
     \<and> (\<forall>i < length (rows df).
          consumption_category (rows out ! i) =
            (if -1 < total_kwh (rows df ! i) \<and> total_kwh (rows df ! i) \<le> 5
             then Some ''very_low''
             else if 5 < total_kwh (rows df ! i) \<and> total_kwh (rows df ! i) \<le> 15
             then Some ''low''
             else if 15 < total_kwh (rows df ! i) \<and> total_kwh (rows df ! i) \<le> 50
             then Some ''medium''
             else if 50 < total_kwh (rows df ! i) \<and> total_kwh (rows df ! i) \<le> 999999
             then Some ''high''
             else None))"
proof -
  have ok: "sorted_wrt (<) default_bins" "length default_labels + 1 = length default_bins"
    by (simp_all add: default_bins_def default_labels_def)
  with assms have "categorize_daily_consumption df None None =
      Inr \<lparr>columns = (if ''consumption_category'' \<in> set (columns df) then columns df
                      else columns df @ [''consumption_category'']),
           rows = map (\<lambda>r. r\<lparr>consumption_category :=
                     cut default_bins default_labels (total_kwh r)\<rparr>) (rows df)\<rparr>"
    by (simp add: categorize_daily_consumption_def)
  then show ?thesis by (simp add: cut_default)
qed

theorem consumption_category_bins_witness:
  "\<exists>out. categorize_daily_consumption
            \<lparr>columns = daily_columns, rows = [daily_sample ''c1'' ''m1'' ''2024-06-15'' 60]\<rparr>
            None None = Inr out
     \<and> consumption_category (rows out ! 0) = Some ''high''"
proof -
  have c: "''total_kwh'' \<in> set (columns
      \<lparr>columns = daily_columns, rows = [daily_sample ''c1'' ''m1'' ''2024-06-15'' 60]\<rparr>)"
    by (simp add: daily_columns_def)
  from consumption_category_bins[OF c] show ?thesis
    by (auto simp: daily_sample_def)
qed

text \<open>
  C7 as stated fails above the last bin edge: a day of 1000000 kWh gets no category.
\<close>

theorem consumption_category_above_last_edge:
  "map_sum id (map consumption_category \<circ> rows)
     (categorize_daily_consumption
        \<lparr>columns = daily_columns, rows = [daily_sample ''c1'' ''m1'' ''2024-06-15'' 1000000]\<rparr>
        None None)
   = Inr [None]"
  by code_simp

subsection \<open>Monthly totals\<close>

lemma to_datetime_all_ok:
  "\<forall>s \<in> set ss. \<exists>d. P s = Inr d \<Longrightarrow> to_datetime_all P ss = Inr (map (projr \<circ> P) ss)"
  by (induction ss) auto

lemma zip_map_self: "zip rs (map f rs) = map (\<lambda>r. (r, f r)) rs"
  by (induction rs) simp_all

lemma monthly_key_dated:
  "monthly_key (r, projr (P (d_date_local r))) = daily_month_id P r"
  by (simp add: monthly_key_def daily_month_id_def)

lemma group_of_dated:
  "map fst (group_of monthly_key (map (\<lambda>r. (r, projr (P (d_date_local r)))) rs) k)
     = filter (\<lambda>r. daily_month_id P r = k) rs"
  by (induction rs) (simp_all add: group_of_def monthly_key_dated)

lemma monthly_id_of_group: "monthly_id (monthly_of_group k g) = k"
  by (simp add: monthly_id_def monthly_of_group_def Let_def)

lemma monthly_of_group_total:
  "monthly_total_kwh (monthly_of_group k g) = round6 (sum_list (map total_kwh (map fst g)))"
  "days_with_data (monthly_of_group k g) = length (map fst g)"
  by (simp_all add: monthly_of_group_def Let_def)

text \<open>
  C5, as amended. On a daily table with the columns the aggregator reads and dates that
  parse, there is exactly one monthly row per client, device, year and month present in
  the daily table; its \<open>monthly_total_kwh\<close> is the sum of \<open>total_kwh\<close> over the daily rows
  of that client, device, year and month, rounded to 6 decimals, and its
  \<open>days_with_data\<close> is the number of those rows.
\<close>

theorem monthly_total_is_group_sum:
  assumes cols: "set [''date_local'', ''client_id'', ''ext_dev_ref'', ''total_kwh'']
                   \<subseteq> set (columns df)"
    and parse: "\<forall>r \<in> set (rows df). \<exists>d. P (d_date_local r) = Inr d"
  shows "\<exists>out. derive_monthly_from_daily P df = Inr out
     \<and> distinct (map monthly_id (rows out))
     \<and> monthly_id ` set (rows out) = daily_month_id P ` set (rows df)
     \<and> (\<forall>m \<in> set (rows out).
          monthly_total_kwh m
            = round6 (sum_list (map total_kwh
                (filter (\<lambda>r. daily_month_id P r = monthly_id m) (rows df))))
          \<and> days_with_data m
            = length (filter (\<lambda>r. daily_month_id P r = monthly_id m) (rows df)))"
proof -
  let ?rds = "map (\<lambda>r. (r, projr (P (d_date_local r)))) (rows df)"
  let ?out = "\<lparr>columns = monthly_columns,
               rows = map (\<lambda>k. monthly_of_group k (group_of monthly_key ?rds k))
                        (groupby_keys monthly_key ?rds)\<rparr>"
  from parse have "to_datetime_all P (map d_date_local (rows df))
      = Inr (map (projr \<circ> P) (map d_date_local (rows df)))"
    by (intro to_datetime_all_ok) auto
  with cols have dd: "daily_dates P df
      = Inr (map (\<lambda>r. projr (P (d_date_local r))) (rows df))"
    by (simp add: daily_dates_def comp_def)
  have run: "derive_monthly_from_daily P df = Inr ?out"
    using cols by (simp add: derive_monthly_from_daily_def dd zip_map_self Let_def)
  have ids: "map monthly_id (rows ?out) = groupby_keys monthly_key ?rds"
    by (simp add: comp_def monthly_id_of_group)
  have keys: "set (groupby_keys monthly_key ?rds) = daily_month_id P ` set (rows df)"
    by (simp add: groupby_keys_set image_image monthly_key_dated)
  have d: "distinct (map monthly_id (rows ?out))"
    by (simp only: ids groupby_keys_distinct)
  have s: "monthly_id ` set (rows ?out) = daily_month_id P ` set (rows df)"
  proof -
    have "monthly_id ` set (rows ?out) = set (map monthly_id (rows ?out))"
      by (simp only: set_map)
    then show ?thesis by (simp only: ids keys)
  qed
  have t: "monthly_total_kwh m
            = round6 (sum_list (map total_kwh
                (filter (\<lambda>r. daily_month_id P r = monthly_id m) (rows df))))
          \<and> days_with_data m
            = length (filter (\<lambda>r. daily_month_id P r = monthly_id m) (rows df))"
    if "m \<in> set (rows ?out)" for m
  proof -
    from that obtain k where k: "m = monthly_of_group k (group_of monthly_key ?rds k)"
      by auto
    then have "monthly_id m = k" by (simp add: monthly_id_of_group)
    with k show ?thesis
      by (simp only: monthly_of_group_total group_of_dated)
  qed
  from run d s t show ?thesis by blast
qed

theorem monthly_total_is_group_sum_witness:
  "\<exists>out. derive_monthly_from_daily iso_date_parser
            \<lparr>columns = daily_columns,
             rows = [daily_sample ''c1'' ''m1'' ''2024-06-15'' 10,
                     daily_sample ''c1'' ''m1'' ''2024-06-16'' 20]\<rparr> = Inr out
     \<and> map monthly_total_kwh (rows out) = [30] \<and> map days_with_data (rows out) = [2]"
proof -
  let ?df = "\<lparr>columns = daily_columns,
             rows = [daily_sample ''c1'' ''m1'' ''2024-06-15'' 10,
                     daily_sample ''c1'' ''m1'' ''2024-06-16'' 20]\<rparr>"
  have c: "set [''date_local'', ''client_id'', ''ext_dev_ref'', ''total_kwh'']
             \<subseteq> set (columns ?df)"
    by (simp add: daily_columns_def)
  have p1: "iso_date_parser ''2024-06-15'' = Inr \<lparr>year = 2024, month = 6, day = 15\<rparr>"
    by code_simp
  have p2: "iso_date_parser ''2024-06-16'' = Inr \<lparr>year = 2024, month = 6, day = 16\<rparr>"
    by code_simp
  have p: "\<forall>r \<in> set (rows ?df). \<exists>d. iso_date_parser (d_date_local r) = Inr d"
    by (simp add: daily_sample_def p1 p2)
  from monthly_total_is_group_sum[OF c p] obtain out where
    out: "derive_monthly_from_daily iso_date_parser ?df = Inr out"
    by blast
  have "map_sum id (\<lambda>out. (map monthly_total_kwh (rows out), map days_with_data (rows out)))
          (derive_monthly_from_daily iso_date_parser ?df) = Inr ([30], [2])"
    by code_simp
  with out show ?thesis by simp
qed

text \<open>
  C5 as stated fails when a device has daily rows under two clients: the groups are per
  client and device, so device \<open>m1\<close> gets two monthly rows for June 2024, of 10 and 20 kWh,
  neither of which is the device's 30 kWh.
\<close>

theorem monthly_total_split_by_client:
  "map_sum id (map (\<lambda>m. (mo_ext_dev_ref m, mo_year m, mo_month m, monthly_total_kwh m)) \<circ> rows)
     (derive_monthly_from_daily iso_date_parser
        \<lparr>columns = daily_columns,
         rows = [daily_sample ''c1'' ''m1'' ''2024-06-15'' 10,
                 daily_sample ''c2'' ''m1'' ''2024-06-16'' 20]\<rparr>)
   = Inr [(''m1'', 2024, 6, 10), (''m1'', 2024, 6, 20)]
   \<and> sum_list (map total_kwh (filter (\<lambda>r. d_ext_dev_ref r = ''m1'')
        [daily_sample ''c1'' ''m1'' ''2024-06-15'' 10,
         daily_sample ''c2'' ''m1'' ''2024-06-16'' 20])) = 30"
  by code_simp

section \<open>Properties of the hourly feature stage\<close>

subsection \<open>Rolling features on a device's first row\<close>

lemma map_of_replace_same:
  "n \<in> fst ` set cols \<Longrightarrow>
   map_of (map (\<lambda>(m, x). if m = n then (m, v) else (m, x)) cols) n = Some v"
proof (induction cols)
  case Nil
  then show ?case by simp
next
  case (Cons a cols)
  obtain k x where a: "a = (k, x)" by (cases a)
  show ?case
  proof (cases "k = n")
    case True
    then show ?thesis by (simp add: a)
  next
    case False
    with Cons.prems have "n \<in> fst ` set cols" by (simp add: a)
    with Cons.IH False show ?thesis by (simp add: a)
  qed
qed

lemma map_of_replace_other:
  "m \<noteq> n \<Longrightarrow>
   map_of (map (\<lambda>(k, x). if k = n then (k, v) else (k, x)) cols) m = map_of cols m"
proof (induction cols)
  case Nil
  then show ?case by simp
next
  case (Cons a cols)
  obtain k x where a: "a = (k, x)" by (cases a)
  from Cons show ?case by (cases "k = n") (simp_all add: a)
qed

lemma map_of_set_fcol_same: "map_of (set_fcol n v cols) n = Some v"
proof (cases "n \<in> fst ` set cols")
  case True
  then show ?thesis by (simp add: set_fcol_def map_of_replace_same)
next
  case False
  then have "map_of cols n = None" by (simp only: map_of_eq_None_iff not_False_eq_True)
  with False show ?thesis by (simp add: set_fcol_def map_add_def)
qed

lemma map_of_set_fcol_other: "m \<noteq> n \<Longrightarrow> map_of (set_fcol n v cols) m = map_of cols m"
  by (cases "n \<in> fst ` set cols")
     (simp_all add: set_fcol_def map_of_replace_other map_add_def split: option.splits)

lemma rolling_columns_differ: "rolling_mean_column W \<noteq> rolling_std_column W"
  by (simp add: rolling_mean_column_def rolling_std_column_def)

lemma device_pos_first:
  assumes "i < length rs" and "\<forall>j < i. ext_dev_ref (rs ! j) \<noteq> ext_dev_ref (rs ! i)"
  shows "device_pos rs i = 0"
proof -
  have "\<not> ext_dev_ref r = ext_dev_ref (rs ! i)" if "r \<in> set (take i rs)" for r
  proof -
    from that obtain j where "j < length (take i rs)" "take i rs ! j = r"
      by (auto simp: in_set_conv_nth)
    with assms show ?thesis by auto
  qed
  then have "filter (\<lambda>r. ext_dev_ref r = ext_dev_ref (rs ! i)) (take i rs) = []"
    by (simp add: filter_empty_conv)
  then show ?thesis by (simp add: device_pos_def)
qed

lemma device_values_nonempty: "i < length rs \<Longrightarrow> device_values rs i \<noteq> []"
  by (auto simp: device_values_def filter_empty_conv)

lemma rolling_obs_first:
  assumes "vs \<noteq> []" and "1 \<le> W"
  shows "rolling_obs W (shift 1 vs) 0 = []"
proof -
  from assms(1) have len: "0 < length vs" by simp
  then have "shift 1 vs ! 0 = None" by (simp add: shift_def)
  moreover have "shift 1 vs \<noteq> []" using len by (simp add: shift_def)
  ultimately have "take (Suc 0) (shift 1 vs) = [None]"
    by (cases "shift 1 vs") simp_all
  moreover from assms(2) have "Suc 0 - W = 0" by simp
  ultimately show ?thesis by (simp add: rolling_obs_def)
qed

lemma rolling_first:
  assumes "vs \<noteq> []" and "1 \<le> W"
  shows "rolling_mean W (shift 1 vs) 0 = None"
    and "fillna0 (rolling_std W (shift 1 vs) 0) = Some 0"
  using rolling_obs_first[OF assms]
  by (simp_all add: rolling_mean_def rolling_std_def fillna0_def)

lemma sort_key_feat_dev:
  "map feat_sort_key (map (\<lambda>i. f i) [0..<length rs]) = map feat_sort_key rs"
  if "\<And>i. i < length rs \<Longrightarrow> feat_sort_key (f i) = feat_sort_key (rs ! i)"
  using that by (intro nth_equalityI) simp_all

text \<open>
  C10. The rolling stage returns the table sorted by device and timestamp, and on every
  row that is the first of its device there (no earlier row of the same device) the
  rolling mean is null while the rolling standard deviation is 0.
\<close>

theorem rolling_first_row_std_zero_mean_null:
  assumes cols: "''timestamp'' \<in> set (columns df)"
      "set [''ext_dev_ref'', ''consumption_kwh''] \<subseteq> set (columns df)"
    and W: "1 \<le> W"
  shows "\<exists>out. add_rolling_features_hourly df W = Inr out
     \<and> length (rows out) = length (rows df)
     \<and> sorted (map feat_sort_key (rows out))
     \<and> (\<forall>i < length (rows out).
          (\<forall>j < i. ext_dev_ref (rows out ! j) \<noteq> ext_dev_ref (rows out ! i)) \<longrightarrow>
            map_of (fcols (rows out ! i)) (rolling_mean_column W) = Some None
          \<and> map_of (fcols (rows out ! i)) (rolling_std_column W) = Some (Some 0))"
proof -
  define rs where "rs = sort_key feat_sort_key (rows df)"
  define rs1 where "rs1 = map (\<lambda>i. (rs ! i)\<lparr>fcols := set_fcol (rolling_mean_column W)
                        (rolling_mean (nat W) (shift 1 (device_values rs i)) (device_pos rs i))
                        (fcols (rs ! i))\<rparr>) [0..<length rs]"
  define rs2 where "rs2 = map (\<lambda>i. (rs1 ! i)\<lparr>fcols := set_fcol (rolling_std_column W)
                        (fillna0 (rolling_std (nat W) (shift 1 (device_values rs1 i))
                           (device_pos rs1 i)))
                        (fcols (rs1 ! i))\<rparr>) [0..<length rs1]"
  define out where "out = \<lparr>columns = with_columns (columns df)
                            [rolling_mean_column W, rolling_std_column W],
                          rows = rs2\<rparr>"
  from cols W have run: "add_rolling_features_hourly df W = Inr out"
    by (simp add: add_rolling_features_hourly_def Let_def out_def rs2_def rs1_def rs_def)
  have l1: "length rs1 = length rs" by (simp add: rs1_def)
  have l2: "length rs2 = length rs" by (simp add: rs2_def l1)
  have len: "length (rows out) = length (rows df)"
    by (simp add: out_def l2 rs_def)
  have n1: "rs1 ! i = (rs ! i)\<lparr>fcols := set_fcol (rolling_mean_column W)
                        (rolling_mean (nat W) (shift 1 (device_values rs i)) (device_pos rs i))
                        (fcols (rs ! i))\<rparr>" if "i < length rs" for i
    using that by (simp add: rs1_def)
  have n2: "rs2 ! i = (rs1 ! i)\<lparr>fcols := set_fcol (rolling_std_column W)
                        (fillna0 (rolling_std (nat W) (shift 1 (device_values rs1 i))
                           (device_pos rs1 i)))
                        (fcols (rs1 ! i))\<rparr>" if "i < length rs" for i
    using that by (simp add: rs2_def l1)
  have k1: "feat_sort_key (rs1 ! i) = feat_sort_key (rs ! i)" if "i < length rs" for i
    using that by (simp add: n1 feat_sort_key_def)
  have k2: "feat_sort_key (rs2 ! i) = feat_sort_key (rs ! i)" if "i < length rs" for i
    using that n1[OF that] by (simp add: n2 feat_sort_key_def)
  have "map feat_sort_key rs2 = map feat_sort_key rs"
    by (intro nth_equalityI) (simp_all add: l2 k2)
  moreover have "sorted (map feat_sort_key rs)" by (simp add: rs_def)
  ultimately have srt: "sorted (map feat_sort_key (rows out))" by (simp add: out_def)
  have d1: "ext_dev_ref (rs1 ! i) = ext_dev_ref (rs ! i)" if "i < length rs" for i
    using that by (simp add: n1)
  have d2: "ext_dev_ref (rs2 ! i) = ext_dev_ref (rs ! i)" if "i < length rs" for i
    using that by (simp add: n2 d1)
  have first: "map_of (fcols (rs2 ! i)) (rolling_mean_column W) = Some None
             \<and> map_of (fcols (rs2 ! i)) (rolling_std_column W) = Some (Some 0)"
    if i: "i < length rs" and f: "\<forall>j < i. ext_dev_ref (rs2 ! j) \<noteq> ext_dev_ref (rs2 ! i)" for i
  proof -
    from i f have f0: "\<forall>j < i. ext_dev_ref (rs ! j) \<noteq> ext_dev_ref (rs ! i)"
      by (simp add: d2)
    with i have f1: "\<forall>j < i. ext_dev_ref (rs1 ! j) \<noteq> ext_dev_ref (rs1 ! i)"
      by (simp add: d1)
    have p0: "device_pos rs i = 0" using i f0 by (rule device_pos_first)
    have p1: "device_pos rs1 i = 0" using i f1 by (intro device_pos_first) (simp_all add: l1)
    have v0: "device_values rs i \<noteq> []" using i by (rule device_values_nonempty)
    have v1: "device_values rs1 i \<noteq> []" using i by (intro device_values_nonempty) (simp add: l1)
    from W have W': "1 \<le> nat W" by simp
    have m: "fcols (rs1 ! i) = set_fcol (rolling_mean_column W) None (fcols (rs ! i))"
      using i by (simp add: n1 p0 rolling_first(1)[OF v0 W'])
    have s: "fcols (rs2 ! i) = set_fcol (rolling_std_column W) (Some 0) (fcols (rs1 ! i))"
      using i by (simp add: n2 p1 rolling_first(2)[OF v1 W'])
    show ?thesis
      by (simp add: s m map_of_set_fcol_same map_of_set_fcol_other rolling_columns_differ)
  qed
  from run len srt first show ?thesis
    by (intro exI[of _ out]) (simp add: out_def l2)
qed

theorem rolling_first_row_std_zero_mean_null_witness:
  "\<exists>out. add_rolling_features_hourly
            \<lparr>columns = feat_columns,
             rows = [feat_sample ''c1'' ''m1'' ''2024-06-15'' 0 3,
                     feat_sample ''c1'' ''m1'' ''2024-06-15'' 1 5]\<rparr> 24 = Inr out
     \<and> map_of (fcols (rows out ! 0)) ''rolling_mean_24h'' = Some None
     \<and> map_of (fcols (rows out ! 0)) ''rolling_std_24h'' = Some (Some 0)"
proof -
  let ?df = "\<lparr>columns = feat_columns,
             rows = [feat_sample ''c1'' ''m1'' ''2024-06-15'' 0 3,
                     feat_sample ''c1'' ''m1'' ''2024-06-15'' 1 5]\<rparr>"
  have c1: "''timestamp'' \<in> set (columns ?df)" by (simp add: feat_columns_def)
  have c2: "set [''ext_dev_ref'', ''consumption_kwh''] \<subseteq> set (columns ?df)"
    by (simp add: feat_columns_def)
  have w: "(1::int) \<le> 24" by simp
  have n1: "rolling_mean_column 24 = ''rolling_mean_24h''" by code_simp
  have n2: "rolling_std_column 24 = ''rolling_std_24h''" by code_simp
  from rolling_first_row_std_zero_mean_null[OF c1 c2 w] obtain out where
    out: "add_rolling_features_hourly ?df 24 = Inr out"
      "length (rows out) = length (rows ?df)"
      "\<forall>i < length (rows out).
          (\<forall>j < i. ext_dev_ref (rows out ! j) \<noteq> ext_dev_ref (rows out ! i)) \<longrightarrow>
            map_of (fcols (rows out ! i)) (rolling_mean_column 24) = Some None
          \<and> map_of (fcols (rows out ! i)) (rolling_std_column 24) = Some (Some 0)"
    by blast
  from out(2) have "0 < length (rows out)" by simp
  with out(3) have "map_of (fcols (rows out ! 0)) (rolling_mean_column 24) = Some None
          \<and> map_of (fcols (rows out ! 0)) (rolling_std_column 24) = Some (Some 0)"
    by blast
  with out(1) show ?thesis by (simp add: n1 n2)
qed

subsection \<open>Timestamp normalisation\<close>












end
